theory Spec2Isabelle
  imports Main
begin

section \<open>Data model of the merchant service\<close>

text \<open>
  The enums of \<^verbatim>\<open>merchant.entity.ts\<close>. Every constructor carries the name of the
  source's enum member; where two enums share a member name the later one is suffixed.
\<close>

datatype MerchantStatus = PENDING | ACTIVE | INACTIVE | SUSPENDED | CLOSED

datatype KycStatus =
  KYC_NOT_STARTED | KYC_PENDING | KYC_IN_REVIEW | KYC_APPROVED | KYC_REJECTED | KYC_EXPIRED

datatype BusinessType =
  INDIVIDUAL | SOLE_PROPRIETORSHIP | PARTNERSHIP | LLC | CORPORATION | NON_PROFIT

datatype BankAccountStatus = NOT_VERIFIED | BANK_PENDING | VERIFIED | FAILED

text \<open>The literal union \<^verbatim>\<open>'approved' | 'rejected'\<close> of \<^verbatim>\<open>VerifyKycDto.decision\<close>.\<close>

datatype KycDecision = approved | rejected

record NotificationPreferences =
  emailNotifications :: bool
  smsNotifications :: bool
  pushNotifications :: bool
  paymentReceived :: bool
  settlementCompleted :: bool
  kycStatusUpdate :: bool
  securityAlerts :: bool
  marketingEmails :: bool

text \<open>
  The admin authentication subsystem. \<^verbatim>\<open>AdminLoginDto\<close> and \<^verbatim>\<open>AdminLoginResponseDto\<close>
  are the classes of the source; the response carries the refresh token as well, as the
  test of a successful login expects. The roles are the members of \<^verbatim>\<open>UserRole\<close> that
  the sources use. The entity classes \<^verbatim>\<open>UserEntity\<close>, \<^verbatim>\<open>AdminSessionEntity\<close> and
  \<^verbatim>\<open>AdminLoginAttemptEntity\<close> are not among the sources: they have the properties that
  the test suite and the spec name ("references a user, holds refreshToken, isActive
  flag, expiresAt, creation metadata (user agent, IP)"; "{email or user reference,
  timestamp, outcome}").
\<close>

datatype UserRole = USER | ADMIN | SUPPORT_ADMIN

record AdminLoginDto =
  email :: string
  password :: string

record AdminInfo =
  id' :: string
  email :: string
  role :: UserRole

record AdminLoginResponseDto =
  access_token :: string
  expires_in :: nat
  admin :: AdminInfo
  refresh_token :: string

record UserEntity =
  id' :: string
  email :: string
  password :: string
  role :: UserRole
  isActive :: bool

record AdminSessionEntity =
  userId :: string
  refreshToken :: string
  isActive :: bool
  expiresAt :: nat
  userAgent :: string
  ipAddress :: string

record AdminLoginAttemptEntity =
  email :: string
  successful :: bool
  createdAt :: nat

text \<open>
  Request objects (\<^verbatim>\<open>merchant.dto.ts\<close>). A property declared optional, or tested for
  presence by the service, is an \<open>option\<close>; \<open>None\<close> is JavaScript's \<^verbatim>\<open>undefined\<close>.
  These records and those above are declared before \<open>Merchant\<close>, so a field name that
  several records share denotes the field of \<open>Merchant\<close> when it is written alone, and
  the field of another record is written with that record's name, as in
  \<open>RegisterMerchantDto.email dto\<close>.
\<close>

record RegisterMerchantDto =
  name :: string
  email :: string
  password :: string
  businessName :: "string option"
  phone :: "string option"
  website :: "string option"
  businessType :: "BusinessType option"

record BankAccountDto =
  accountNumber :: string
  routingNumber :: "string option"
  accountHolderName :: string
  bankName :: string
  swiftCode :: "string option"
  iban :: "string option"

record VerifyKycDto =
  decision :: KycDecision
  rejectionReason :: "string option"

record CurrencySettingsDto =
  supportedCurrencies :: "string list"
  defaultCurrency :: string

record UpdateApiQuotaDto =
  apiQuotaLimit :: int

record ChangeMerchantStatusDto =
  status :: MerchantStatus
  reason :: "string option"

text \<open>
  The entity \<open>Merchant\<close>, with the columns that the operations below read or write.
  Timestamps are milliseconds since the epoch; the two quota columns are SQL integers.
  The address, document, metadata and audit columns and the two relations are written by
  none of these operations and are left out.
\<close>

record Merchant =
  id' :: string
  name :: string
  businessName :: "string option"
  email :: string
  passwordHash :: "string option"
  phone :: "string option"
  website :: "string option"
  businessType :: "BusinessType option"
  status :: MerchantStatus
  kycStatus :: KycStatus
  kycVerifiedAt :: "nat option"
  kycRejectionReason :: "string option"
  emailVerified :: bool
  emailVerificationToken :: "string option"
  emailVerificationExpiresAt :: "nat option"
  emailVerifiedAt :: "nat option"
  bankAccountNumber :: "string option"
  bankRoutingNumber :: "string option"
  bankAccountHolderName :: "string option"
  bankName :: "string option"
  bankSwiftCode :: "string option"
  bankIban :: "string option"
  bankAccountStatus :: BankAccountStatus
  supportedCurrencies :: "string list"
  defaultCurrency :: string
  settlementFrequency :: string
  minimumSettlementAmount :: int
  autoSettlementEnabled :: bool
  notificationPreferences :: "NotificationPreferences option"
  apiQuotaLimit :: int
  apiQuotaUsed :: int
  apiQuotaResetAt :: "nat option"
  suspensionReason :: "string option"
  closedAt :: "nat option"
  closedReason :: "string option"


section \<open>Errors and collaborators\<close>

text \<open>
  One constructor for each exception class that the modelled operations throw, with the
  constructor arguments the service passes. \<open>OtherError\<close> is an exception the service
  does not construct itself: what a rejected call of a collaborator throws.
\<close>

datatype error =
    MerchantNotFound "string option"
  | MerchantAlreadyExists string
  | MerchantSuspended "string option"
  | MerchantClosed
  | MerchantInvalidStatus MerchantStatus MerchantStatus
  | MerchantEmailAlreadyVerified
  | MerchantVerificationTokenInvalid
  | MerchantVerificationTokenExpired
  | KycInvalidStatus KycStatus KycDecision
  | BankAccountInvalid string
  | ApiQuotaExceeded int "nat option"
  | OtherError string

text \<open>
  The injected \<^verbatim>\<open>IEmailService\<close>: one method for each kind of email that the modelled
  operations send, with the arguments the service passes (address, then token, name or
  reason). A call either resolves (\<open>Inr ()\<close>) or rejects with an error (\<open>Inl\<close>).
\<close>

record IEmailService =
  sendVerificationEmail :: "string \<Rightarrow> string \<Rightarrow> string \<Rightarrow> error + unit"
  sendWelcomeEmail :: "string \<Rightarrow> string \<Rightarrow> error + unit"
  sendKycApprovedEmail :: "string \<Rightarrow> string \<Rightarrow> error + unit"
  sendKycRejectedEmail :: "string \<Rightarrow> string \<Rightarrow> string \<Rightarrow> error + unit"
  sendAccountSuspendedEmail :: "string \<Rightarrow> string \<Rightarrow> string option \<Rightarrow> error + unit"
  sendAccountReactivatedEmail :: "string \<Rightarrow> string \<Rightarrow> error + unit"

text \<open>
  \<^verbatim>\<open>try { await send(...) } catch (error) { this.logger.error(...) }\<close>: the error is
  logged and dropped, and control continues after the block. The logger is not part of
  the state.
\<close>

definition try_catch_log :: "error + unit \<Rightarrow> error + unit" where
  "try_catch_log r = (case r of Inl e \<Rightarrow> Inr () | Inr u \<Rightarrow> Inr u)"

text \<open>
  Two built-ins of the JavaScript runtime depend on tables that are no part of the
  repository, the Unicode case mapping and the rules of the local time zone. They are
  parameters of the model: \<open>toLowerCase\<close> is \<^verbatim>\<open>String.prototype.toLowerCase\<close>, on strings
  that are sequences of code units, and \<open>plusHours d h\<close> is the date that
  \<^verbatim>\<open>d.setHours(d.getHours() + h)\<close> leaves in \<^verbatim>\<open>d\<close>: the instant at which the local clock
  shows \<open>h\<close> hours more, which is \<open>h\<close> hours later except across a change of the
  clock.
\<close>

record Runtime =
  toLowerCase :: "string \<Rightarrow> string"
  plusHours :: "nat \<Rightarrow> nat \<Rightarrow> nat"

section \<open>The record store\<close>

text \<open>
  The class \<^verbatim>\<open>MerchantRepository\<close> (the "Merchant Record Store" of the spec) is not
  among the sources; the service only calls it. Each of its operations below is
  modelled from the spec, on a store that is the list of the persisted merchants.
\<close>

type_synonym store = "Merchant list"

text \<open>Modelled from the spec: \<^verbatim>\<open>findById\<close> is missing; "lookup-by-id".\<close>

definition findById :: "store \<Rightarrow> string \<Rightarrow> Merchant option" where
  "findById s i = find (\<lambda>m. id' m = i) s"

text \<open>
  Modelled from the spec: \<^verbatim>\<open>findByEmail\<close> is missing; "a merchant with that email
  (case-insensitive) exists", "email unique across all merchants (case-insensitive,
  stored lowercased)".
\<close>

definition findByEmail :: "Runtime \<Rightarrow> store \<Rightarrow> string \<Rightarrow> Merchant option" where
  "findByEmail rt s e = find (\<lambda>m. toLowerCase rt (email m) = toLowerCase rt e) s"

text \<open>Modelled from the spec: \<^verbatim>\<open>findByVerificationToken\<close> is missing; "lookup by token".\<close>

definition findByVerificationToken :: "store \<Rightarrow> string \<Rightarrow> Merchant option" where
  "findByVerificationToken s t = find (\<lambda>m. emailVerificationToken m = Some t) s"

text \<open>
  Modelled from the spec: \<^verbatim>\<open>create\<close> is missing; "persist". The new merchant is stored
  under the primary key generated for it, the parameter \<open>uuid\<close>, and returned.
\<close>

definition create :: "store \<Rightarrow> string \<Rightarrow> Merchant \<Rightarrow> Merchant \<times> store" where
  "create s uuid m = (m\<lparr>id' := uuid\<rparr>, s @ [m\<lparr>id' := uuid\<rparr>])"

text \<open>
  Modelled from the spec: \<^verbatim>\<open>update\<close> is missing; "partial update". The properties
  listed in the object the service passes are assigned to the merchant of that id, a
  property given as \<^verbatim>\<open>undefined\<close> being cleared ("clear token and expiry"). The object
  is the function \<open>f\<close> on the record; the row keeps its key. The result is the merchant
  as stored afterwards, \<^verbatim>\<open>null\<close> (\<open>None\<close>) when there is none.
\<close>

definition patch :: "string \<Rightarrow> (Merchant \<Rightarrow> Merchant) \<Rightarrow> store \<Rightarrow> store" where
  "patch i f s = map (\<lambda>m. if id' m = i then (f m)\<lparr>id' := i\<rparr> else m) s"

definition update :: "store \<Rightarrow> string \<Rightarrow> (Merchant \<Rightarrow> Merchant) \<Rightarrow> Merchant option \<times> store" where
  "update s i f = (findById (patch i f s) i, patch i f s)"

text \<open>
  Modelled from the spec: \<^verbatim>\<open>updateStatus\<close> and \<^verbatim>\<open>updateKycStatus\<close> are missing; "status
  update", "KYC-status update": \<open>update\<close> with the status column set as well.
\<close>

definition updateStatus ::
  "store \<Rightarrow> string \<Rightarrow> MerchantStatus \<Rightarrow> (Merchant \<Rightarrow> Merchant) \<Rightarrow> Merchant option \<times> store" where
  "updateStatus s i st f = update s i (\<lambda>m. (f m)\<lparr>status := st\<rparr>)"

definition updateKycStatus ::
  "store \<Rightarrow> string \<Rightarrow> KycStatus \<Rightarrow> (Merchant \<Rightarrow> Merchant) \<Rightarrow> Merchant option \<times> store" where
  "updateKycStatus s i ks f = update s i (\<lambda>m. (f m)\<lparr>kycStatus := ks\<rparr>)"

text \<open>
  Modelled from the spec: \<^verbatim>\<open>incrementApiQuota\<close> is missing; "increments used by one as
  a single atomic operation against the store".
\<close>

definition incrementApiQuota :: "store \<Rightarrow> string \<Rightarrow> store" where
  "incrementApiQuota s i = patch i (\<lambda>m. m\<lparr>apiQuotaUsed := apiQuotaUsed m + 1\<rparr>) s"

section \<open>The merchant service\<close>

text \<open>
  Each method of \<^verbatim>\<open>MerchantService\<close> takes the store and returns its result together
  with the store afterwards. A thrown exception is \<open>Inl\<close>. \<^verbatim>\<open>new Date()\<close> is the
  parameter \<open>now\<close>.
\<close>

fun VALID_STATUS_TRANSITIONS :: "MerchantStatus \<Rightarrow> MerchantStatus list" where
  "VALID_STATUS_TRANSITIONS PENDING = [ACTIVE, SUSPENDED, CLOSED]"
| "VALID_STATUS_TRANSITIONS ACTIVE = [INACTIVE, SUSPENDED, CLOSED]"
| "VALID_STATUS_TRANSITIONS INACTIVE = [ACTIVE, SUSPENDED, CLOSED]"
| "VALID_STATUS_TRANSITIONS SUSPENDED = [ACTIVE, CLOSED]"
| "VALID_STATUS_TRANSITIONS CLOSED = []"

definition getMerchantById :: "store \<Rightarrow> string \<Rightarrow> error + Merchant" where
  "getMerchantById s i =
     (case findById s i of None \<Rightarrow> Inl (MerchantNotFound (Some i)) | Some merchant \<Rightarrow> Inr merchant)"

definition changeMerchantStatus ::
  "IEmailService \<Rightarrow> nat \<Rightarrow> store \<Rightarrow> string \<Rightarrow> ChangeMerchantStatusDto
     \<Rightarrow> (error + Merchant option) \<times> store" where
  "changeMerchantStatus es now s i dto =
     (case getMerchantById s i of
        Inl e \<Rightarrow> (Inl e, s)
      | Inr merchant \<Rightarrow>
          if ChangeMerchantStatusDto.status dto \<notin> set (VALID_STATUS_TRANSITIONS (status merchant))
          then (Inl (MerchantInvalidStatus (status merchant) (ChangeMerchantStatusDto.status dto)), s)
          else
            let updateData =
                  (case ChangeMerchantStatusDto.status dto of
                     SUSPENDED \<Rightarrow> (\<lambda>m. m\<lparr>suspensionReason := reason dto\<rparr>)
                   | CLOSED \<Rightarrow> (\<lambda>m. m\<lparr>closedAt := Some now, closedReason := reason dto\<rparr>)
                   | _ \<Rightarrow> (\<lambda>m. m));
                (updatedMerchant, s') =
                  updateStatus s i (ChangeMerchantStatusDto.status dto) updateData
            in (case try_catch_log
                      (if ChangeMerchantStatusDto.status dto = SUSPENDED
                       then sendAccountSuspendedEmail es (email merchant) (name merchant) (reason dto)
                       else if ChangeMerchantStatusDto.status dto = ACTIVE \<and> status merchant = SUSPENDED
                       then sendAccountReactivatedEmail es (email merchant) (name merchant)
                       else Inr ()) of
                  Inl e \<Rightarrow> (Inl e, s')
                | Inr u \<Rightarrow> (Inr updatedMerchant, s')))"


text \<open>
  \<open>registerMerchant\<close>. The results of \<^verbatim>\<open>bcrypt.hash\<close>, of
  \<^verbatim>\<open>crypto.randomBytes(32).toString('hex')\<close> and of the primary-key generator are the
  parameters \<open>bcryptHash\<close>, \<open>randomToken\<close> and \<open>uuid\<close>.
\<close>

definition SALT_ROUNDS :: nat where
  "SALT_ROUNDS = 10"

definition VERIFICATION_TOKEN_EXPIRY_HOURS :: nat where
  "VERIFICATION_TOKEN_EXPIRY_HOURS = 24"

definition getDefaultNotificationPreferences :: NotificationPreferences where
  "getDefaultNotificationPreferences =
     \<lparr> emailNotifications = True, smsNotifications = False, pushNotifications = True,
       paymentReceived = True, settlementCompleted = True, kycStatusUpdate = True,
       securityAlerts = True, marketingEmails = False \<rparr>"

definition registerMerchant ::
  "Runtime \<Rightarrow> IEmailService \<Rightarrow> (string \<Rightarrow> nat \<Rightarrow> string) \<Rightarrow> string \<Rightarrow> string \<Rightarrow> nat
     \<Rightarrow> store \<Rightarrow> RegisterMerchantDto \<Rightarrow> (error + Merchant) \<times> store" where
  "registerMerchant rt es bcryptHash randomToken uuid now s dto =
     (case findByEmail rt s (RegisterMerchantDto.email dto) of
        Some existingMerchant \<Rightarrow>
          (Inl (MerchantAlreadyExists (RegisterMerchantDto.email dto)), s)
      | None \<Rightarrow>
          let passwordHash' = bcryptHash (password dto) SALT_ROUNDS;
              verificationToken = randomToken;
              verificationExpiry = plusHours rt now VERIFICATION_TOKEN_EXPIRY_HOURS;
              (merchant, s') = create s uuid
                \<lparr> id' = uuid,
                  name = RegisterMerchantDto.name dto,
                  businessName = RegisterMerchantDto.businessName dto,
                  email = toLowerCase rt (RegisterMerchantDto.email dto),
                  passwordHash = Some passwordHash',
                  phone = RegisterMerchantDto.phone dto,
                  website = RegisterMerchantDto.website dto,
                  businessType = RegisterMerchantDto.businessType dto,
                  status = PENDING,
                  kycStatus = KYC_NOT_STARTED,
                  kycVerifiedAt = None,
                  kycRejectionReason = None,
                  emailVerified = False,
                  emailVerificationToken = Some verificationToken,
                  emailVerificationExpiresAt = Some verificationExpiry,
                  emailVerifiedAt = None,
                  bankAccountNumber = None,
                  bankRoutingNumber = None,
                  bankAccountHolderName = None,
                  bankName = None,
                  bankSwiftCode = None,
                  bankIban = None,
                  bankAccountStatus = NOT_VERIFIED,
                  supportedCurrencies = [''USD''],
                  defaultCurrency = ''USD'',
                  settlementFrequency = ''daily'',
                  minimumSettlementAmount = 0,
                  autoSettlementEnabled = True,
                  notificationPreferences = Some getDefaultNotificationPreferences,
                  apiQuotaLimit = 1000,
                  apiQuotaUsed = 0,
                  apiQuotaResetAt = None,
                  suspensionReason = None,
                  closedAt = None,
                  closedReason = None \<rparr>
          in (case try_catch_log
                    (sendVerificationEmail es (RegisterMerchantDto.email dto) verificationToken
                       (RegisterMerchantDto.name dto)) of
                Inl e \<Rightarrow> (Inl e, s')
              | Inr u \<Rightarrow> (Inr merchant, s')))"


text \<open>\<open>verifyEmail\<close>: the three failures are tested in the order of the source.\<close>

definition verifyEmail ::
  "IEmailService \<Rightarrow> nat \<Rightarrow> store \<Rightarrow> string \<Rightarrow> (error + Merchant option) \<times> store" where
  "verifyEmail es now s token =
     (case findByVerificationToken s token of
        None \<Rightarrow> (Inl MerchantVerificationTokenInvalid, s)
      | Some merchant \<Rightarrow>
          if emailVerified merchant then (Inl MerchantEmailAlreadyVerified, s)
          else if (case emailVerificationExpiresAt merchant of
                     None \<Rightarrow> False
                   | Some expiry \<Rightarrow> expiry < now)
          then (Inl MerchantVerificationTokenExpired, s)
          else
            let (updatedMerchant, s') =
                  update s (id' merchant)
                    (\<lambda>m. m\<lparr>emailVerified := True,
                           emailVerifiedAt := Some now,
                           emailVerificationToken := None,
                           emailVerificationExpiresAt := None\<rparr>)
            in (case try_catch_log (sendWelcomeEmail es (email merchant) (name merchant)) of
                  Inl e \<Rightarrow> (Inl e, s')
                | Inr u \<Rightarrow> (Inr updatedMerchant, s')))"

text \<open>
  \<open>resendVerificationEmail\<close>: the send is awaited outside any \<^verbatim>\<open>try\<close> block, so a
  rejection is the method's own rejection.
\<close>

definition resendVerificationEmail ::
  "Runtime \<Rightarrow> IEmailService \<Rightarrow> string \<Rightarrow> nat \<Rightarrow> store \<Rightarrow> string
     \<Rightarrow> (error + unit) \<times> store" where
  "resendVerificationEmail rt es randomToken now s email' =
     (case findByEmail rt s email' of
        None \<Rightarrow> (Inl (MerchantNotFound None), s)
      | Some merchant \<Rightarrow>
          if emailVerified merchant then (Inl MerchantEmailAlreadyVerified, s)
          else
            let verificationToken = randomToken;
                verificationExpiry = plusHours rt now VERIFICATION_TOKEN_EXPIRY_HOURS;
                (updatedMerchant, s') =
                  update s (id' merchant)
                    (\<lambda>m. m\<lparr>emailVerificationToken := Some verificationToken,
                           emailVerificationExpiresAt := Some verificationExpiry\<rparr>)
            in (case sendVerificationEmail es email' verificationToken (name merchant) of
                  Inl e \<Rightarrow> (Inl e, s')
                | Inr u \<Rightarrow> (Inr (), s')))"

text \<open>
  \<open>verifyKyc\<close>. \<^verbatim>\<open>dto.rejectionReason || '...'\<close> takes the default text for a reason
  that is absent or the empty string.
\<close>

definition verifyKyc ::
  "IEmailService \<Rightarrow> nat \<Rightarrow> store \<Rightarrow> string \<Rightarrow> VerifyKycDto \<Rightarrow> (error + Merchant option) \<times> store" where
  "verifyKyc es now s i dto =
     (case getMerchantById s i of
        Inl e \<Rightarrow> (Inl e, s)
      | Inr merchant \<Rightarrow>
          if kycStatus merchant \<noteq> KYC_PENDING \<and> kycStatus merchant \<noteq> KYC_IN_REVIEW
          then (Inl (KycInvalidStatus (kycStatus merchant) (decision dto)), s)
          else if decision dto = approved
          then
            let (updatedMerchant, s1) =
                  updateKycStatus s i KYC_APPROVED (\<lambda>m. m\<lparr>kycVerifiedAt := Some now\<rparr>)
            in if emailVerified merchant \<and> status merchant = PENDING
               then
                 let (activated, s2) = updateStatus s1 i ACTIVE (\<lambda>m. m)
                 in (case getMerchantById s2 i of
                       Inl e \<Rightarrow> (Inl e, s2)
                     | Inr reloaded \<Rightarrow>
                         (case try_catch_log
                                 (sendKycApprovedEmail es (email merchant) (name merchant)) of
                            Inl e \<Rightarrow> (Inl e, s2)
                          | Inr u \<Rightarrow> (Inr (Some reloaded), s2)))
               else
                 (case try_catch_log
                         (sendKycApprovedEmail es (email merchant) (name merchant)) of
                    Inl e \<Rightarrow> (Inl e, s1)
                  | Inr u \<Rightarrow> (Inr updatedMerchant, s1))
          else
            let (updatedMerchant, s1) =
                  updateKycStatus s i KYC_REJECTED
                    (\<lambda>m. m\<lparr>kycRejectionReason := rejectionReason dto\<rparr>)
            in (case try_catch_log
                      (sendKycRejectedEmail es (email merchant) (name merchant)
                         (case rejectionReason dto of
                            None \<Rightarrow> ''Documents could not be verified''
                          | Some r \<Rightarrow> if r = [] then ''Documents could not be verified'' else r)) of
                  Inl e \<Rightarrow> (Inl e, s1)
                | Inr u \<Rightarrow> (Inr updatedMerchant, s1)))"

text \<open>
  \<open>validateMerchantActive\<close>. \<^verbatim>\<open>merchant.suspensionReason || undefined\<close> passes no reason
  for one that is absent or empty.
\<close>

definition validateMerchantActive :: "Merchant \<Rightarrow> error + unit" where
  "validateMerchantActive merchant =
     (if status merchant = SUSPENDED
      then Inl (MerchantSuspended
                  (case suspensionReason merchant of
                     None \<Rightarrow> None
                   | Some r \<Rightarrow> if r = [] then None else Some r))
      else if status merchant = CLOSED then Inl MerchantClosed
      else Inr ())"


subsection \<open>Regular expressions of the bank-account validation\<close>

text \<open>
  The four patterns of \<open>validateBankAccountDetails\<close> are built from three character
  classes (\<^verbatim>\<open>\d\<close>, \<^verbatim>\<open>[A-Z]\<close>, \<^verbatim>\<open>[A-Z0-9]\<close>), bounded repetition \<^verbatim>\<open>{lo,hi}\<close> of a
  class, sequence, and an optional group. \<open>matchPrefix r s\<close> lists what is left of \<open>s\<close>
  after each way of matching \<open>r\<close> at its start; \<^verbatim>\<open>/^r$/.test(s)\<close> holds when one way
  leaves nothing (without the \<^verbatim>\<open>m\<close> flag, \<^verbatim>\<open>$\<close> matches at the end of the input only).
\<close>

datatype charClass = Digit | Upper | UpperOrDigit

fun inClass :: "charClass \<Rightarrow> char \<Rightarrow> bool" where
  "inClass Digit c = (c \<in> set ''0123456789'')"
| "inClass Upper c = (c \<in> set ''ABCDEFGHIJKLMNOPQRSTUVWXYZ'')"
| "inClass UpperOrDigit c = (c \<in> set ''ABCDEFGHIJKLMNOPQRSTUVWXYZ0123456789'')"

datatype regex = Rep charClass nat nat | Seq regex regex | Opt regex

fun rep :: "(char \<Rightarrow> bool) \<Rightarrow> nat \<Rightarrow> nat \<Rightarrow> string \<Rightarrow> string list" where
  "rep p lo 0 s = (if lo = 0 then [s] else [])"
| "rep p lo (Suc hi) s =
     (if lo = 0 then [s] else []) @
     (case s of [] \<Rightarrow> [] | c # cs \<Rightarrow> if p c then rep p (lo - 1) hi cs else [])"

fun matchPrefix :: "regex \<Rightarrow> string \<Rightarrow> string list" where
  "matchPrefix (Rep c lo hi) s = rep (inClass c) lo hi s"
| "matchPrefix (Seq a b) s = concat (map (matchPrefix b) (matchPrefix a s))"
| "matchPrefix (Opt a) s = matchPrefix a s @ [s]"

definition test :: "regex \<Rightarrow> string \<Rightarrow> bool" where
  "test r s = ([] \<in> set (matchPrefix r s))"

text \<open>
  \<open>validateBankAccountDetails\<close>. The guard \<^verbatim>\<open>dto.routingNumber && ...\<close> is JavaScript
  truthiness: the pattern is tested only for a string that is there and not empty.
\<close>

definition validateBankAccountDetails :: "BankAccountDto \<Rightarrow> error + unit" where
  "validateBankAccountDetails dto =
     (if \<not> test (Rep Digit 4 17) (accountNumber dto)
      then Inl (BankAccountInvalid ''Invalid account number format'')
      else if (case routingNumber dto of
                 None \<Rightarrow> False
               | Some r \<Rightarrow> r \<noteq> [] \<and> \<not> test (Rep Digit 9 9) r)
      then Inl (BankAccountInvalid ''Invalid routing number format'')
      else if (case swiftCode dto of
                 None \<Rightarrow> False
               | Some c \<Rightarrow> c \<noteq> [] \<and>
                   \<not> test (Seq (Rep Upper 6 6)
                              (Seq (Rep UpperOrDigit 2 2) (Opt (Rep UpperOrDigit 3 3)))) c)
      then Inl (BankAccountInvalid ''Invalid SWIFT code format'')
      else if (case iban dto of
                 None \<Rightarrow> False
               | Some b \<Rightarrow> b \<noteq> [] \<and>
                   \<not> test (Seq (Rep Upper 2 2) (Seq (Rep Digit 2 2) (Rep UpperOrDigit 4 30))) b)
      then Inl (BankAccountInvalid ''Invalid IBAN format'')
      else Inr ())"

definition updateBankAccount ::
  "store \<Rightarrow> string \<Rightarrow> BankAccountDto \<Rightarrow> (error + Merchant option) \<times> store" where
  "updateBankAccount s i dto =
     (case getMerchantById s i of
        Inl e \<Rightarrow> (Inl e, s)
      | Inr merchant \<Rightarrow>
          (case validateMerchantActive merchant of
             Inl e \<Rightarrow> (Inl e, s)
           | Inr u \<Rightarrow>
               (case validateBankAccountDetails dto of
                  Inl e \<Rightarrow> (Inl e, s)
                | Inr u \<Rightarrow>
                    let (updatedMerchant, s') =
                          update s i
                            (\<lambda>m. m\<lparr>bankAccountNumber := Some (accountNumber dto),
                                   bankRoutingNumber := routingNumber dto,
                                   bankAccountHolderName := Some (accountHolderName dto),
                                   bankName := Some (BankAccountDto.bankName dto),
                                   bankSwiftCode := swiftCode dto,
                                   bankIban := iban dto,
                                   bankAccountStatus := BANK_PENDING\<rparr>)
                    in (Inr updatedMerchant, s'))))"

text \<open>
  \<open>updateCurrencySettings\<close>: \<^verbatim>\<open>push\<close> appends the default currency to the request's
  array when \<^verbatim>\<open>includes\<close> does not find it there.
\<close>

definition updateCurrencySettings ::
  "store \<Rightarrow> string \<Rightarrow> CurrencySettingsDto \<Rightarrow> (error + Merchant option) \<times> store" where
  "updateCurrencySettings s i dto =
     (case getMerchantById s i of
        Inl e \<Rightarrow> (Inl e, s)
      | Inr merchant \<Rightarrow>
          (case validateMerchantActive merchant of
             Inl e \<Rightarrow> (Inl e, s)
           | Inr u \<Rightarrow>
               let supported =
                     (if CurrencySettingsDto.defaultCurrency dto
                           \<notin> set (CurrencySettingsDto.supportedCurrencies dto)
                      then CurrencySettingsDto.supportedCurrencies dto
                             @ [CurrencySettingsDto.defaultCurrency dto]
                      else CurrencySettingsDto.supportedCurrencies dto);
                   (updatedMerchant, s') =
                     update s i
                       (\<lambda>m. m\<lparr>supportedCurrencies := supported,
                              defaultCurrency := CurrencySettingsDto.defaultCurrency dto\<rparr>)
               in (Inr updatedMerchant, s')))"

definition updateApiQuota ::
  "store \<Rightarrow> string \<Rightarrow> UpdateApiQuotaDto \<Rightarrow> (error + Merchant option) \<times> store" where
  "updateApiQuota s i dto =
     (case getMerchantById s i of
        Inl e \<Rightarrow> (Inl e, s)
      | Inr merchant \<Rightarrow>
          let (updatedMerchant, s') =
                update s i (\<lambda>m. m\<lparr>apiQuotaLimit := UpdateApiQuotaDto.apiQuotaLimit dto\<rparr>)
          in (Inr updatedMerchant, s'))"

definition checkAndIncrementApiQuota :: "store \<Rightarrow> string \<Rightarrow> (error + unit) \<times> store" where
  "checkAndIncrementApiQuota s i =
     (case getMerchantById s i of
        Inl e \<Rightarrow> (Inl e, s)
      | Inr merchant \<Rightarrow>
          if apiQuotaUsed merchant \<ge> apiQuotaLimit merchant
          then (Inl (ApiQuotaExceeded (apiQuotaLimit merchant) (apiQuotaResetAt merchant)), s)
          else (Inr (), incrementApiQuota s i))"

text \<open>A run of calls of \<open>checkAndIncrementApiQuota\<close>, one for each id of the list, in order.\<close>

fun quotaCalls :: "store \<Rightarrow> string list \<Rightarrow> store" where
  "quotaCalls s [] = s"
| "quotaCalls s (i # is) = quotaCalls (snd (checkAndIncrementApiQuota s i)) is"


section \<open>The admin authentication service\<close>

text \<open>
  Modelled from the spec: the class \<^verbatim>\<open>AdminAuthService\<close> is not among the sources; only
  its test suite and its request and response classes are. \<open>login\<close> follows the four
  steps of the spec: (1) "count recent failed attempts for the email within a lockout
  window; if count \<ge> threshold (5), fail Forbidden"; (2) "look up user by email; fail
  Unauthorized if absent or role not in {ADMIN, SUPPORT_ADMIN}"; (3) "compare password;
  fail Unauthorized on mismatch; record the failed attempt either way before returning";
  (4) issue the access token, create the session row with the refresh token, and return
  both with the admin's id, email and role. The attempt is recorded where the spec
  names the recording, at the comparison of step 3, with its outcome: failed on a
  mismatch, successful on a match. The password comparison and the token
  signer are the collaborators \<open>comparePassword\<close> and \<open>sign\<close>; the lockout window, the
  lifetime of the access token in seconds and the lifetime of a session are the
  configuration.
\<close>

datatype AuthError = Unauthorized | Forbidden

record AdminAuthState =
  users :: "UserEntity list"
  sessions :: "AdminSessionEntity list"
  loginAttempts :: "AdminLoginAttemptEntity list"

record AdminAuthConfig =
  lockoutWindow :: nat
  accessTokenSeconds :: nat
  sessionLifetime :: nat

text \<open>Modelled from the spec: the threshold of step 1, "threshold (5)".\<close>

definition LOCKOUT_THRESHOLD :: nat where
  "LOCKOUT_THRESHOLD = 5"

text \<open>
  Modelled from the spec: "count recent failed attempts for the email within a lockout
  window".
\<close>

definition recentFailedAttempts :: "AdminAuthConfig \<Rightarrow> nat \<Rightarrow> AdminAuthState \<Rightarrow> string \<Rightarrow> nat" where
  "recentFailedAttempts cfg now st e =
     length (filter (\<lambda>a. AdminLoginAttemptEntity.email a = e \<and> \<not> successful a
                          \<and> now \<le> createdAt a + lockoutWindow cfg)
               (loginAttempts st))"

text \<open>
  Modelled from the spec: "Admin Login Attempt: append-only record of {email or user
  reference, timestamp, outcome}".
\<close>

definition recordLoginAttempt :: "AdminAuthState \<Rightarrow> string \<Rightarrow> bool \<Rightarrow> nat \<Rightarrow> AdminAuthState" where
  "recordLoginAttempt st e ok now =
     st\<lparr>loginAttempts := loginAttempts st
           @ [\<lparr> AdminLoginAttemptEntity.email = e, successful = ok, createdAt = now \<rparr>]\<rparr>"

text \<open>Modelled from the spec: \<^verbatim>\<open>AdminAuthService.login\<close> is missing; steps 1 to 4 above.\<close>

definition login ::
  "(string \<Rightarrow> string \<Rightarrow> bool) \<Rightarrow> (string \<Rightarrow> string \<Rightarrow> string) \<Rightarrow> AdminAuthConfig \<Rightarrow> nat
     \<Rightarrow> AdminAuthState \<Rightarrow> AdminLoginDto \<Rightarrow> string \<Rightarrow> string
     \<Rightarrow> (AuthError + AdminLoginResponseDto) \<times> AdminAuthState" where
  "login comparePassword sign cfg now st dto agent ip =
     (if recentFailedAttempts cfg now st (AdminLoginDto.email dto) \<ge> LOCKOUT_THRESHOLD
      then (Inl Forbidden, st)
      else
        (case find (\<lambda>u. UserEntity.email u = AdminLoginDto.email dto) (users st) of
           None \<Rightarrow> (Inl Unauthorized, st)
         | Some user \<Rightarrow>
             if UserEntity.role user \<noteq> ADMIN \<and> UserEntity.role user \<noteq> SUPPORT_ADMIN
             then (Inl Unauthorized, st)
             else if \<not> comparePassword (AdminLoginDto.password dto) (UserEntity.password user)
             then (Inl Unauthorized, recordLoginAttempt st (AdminLoginDto.email dto) False now)
             else
               let accessToken = sign (UserEntity.id' user) ''admin'';
                   refreshToken' = sign (UserEntity.id' user) ''admin_refresh'';
                   session =
                     \<lparr> userId = UserEntity.id' user, refreshToken = refreshToken',
                       AdminSessionEntity.isActive = True,
                       expiresAt = now + sessionLifetime cfg,
                       userAgent = agent, ipAddress = ip \<rparr>;
                   st' = recordLoginAttempt (st\<lparr>sessions := sessions st @ [session]\<rparr>)
                           (AdminLoginDto.email dto) True now
               in (Inr \<lparr> access_token = accessToken,
                         expires_in = accessTokenSeconds cfg,
                         admin = \<lparr> AdminInfo.id' = UserEntity.id' user,
                                   email = UserEntity.email user,
                                   role = UserEntity.role user \<rparr>,
                         refresh_token = refreshToken' \<rparr>,
                   st')))"



section \<open>The bank-account formats in words\<close>

text \<open>
  What the claim's patterns say about a whole string, in terms of its length and of the
  classes of its characters: 4 to 17 digits; exactly 9 digits; six capital letters and
  then two or five capital letters or digits; two capital letters, two digits and then
  4 to 30 capital letters or digits.
\<close>

definition isAccountNumber :: "string \<Rightarrow> bool" where
  "isAccountNumber a = (4 \<le> length a \<and> length a \<le> 17 \<and> list_all (inClass Digit) a)"

definition isRoutingNumber :: "string \<Rightarrow> bool" where
  "isRoutingNumber r = (length r = 9 \<and> list_all (inClass Digit) r)"

definition isSwiftCode :: "string \<Rightarrow> bool" where
  "isSwiftCode c =
     ((length c = 8 \<or> length c = 11)
      \<and> list_all (inClass Upper) (take 6 c)
      \<and> list_all (inClass UpperOrDigit) (drop 6 c))"

definition isIban :: "string \<Rightarrow> bool" where
  "isIban b =
     (8 \<le> length b \<and> length b \<le> 34
      \<and> list_all (inClass Upper) (take 2 b)
      \<and> list_all (inClass Digit) (take 2 (drop 2 b))
      \<and> list_all (inClass UpperOrDigit) (drop 4 b))"

section \<open>Inputs for the examples\<close>

text \<open>
  A runtime for the examples, whose addresses are ASCII and whose clock is never
  changed: lowercasing maps the letters A to Z, a date plus \<open>h\<close> hours is \<open>h\<close> hours
  later. Two email services, one that delivers every message and one that rejects every
  send, and the registration of the spec's scenario.
\<close>

definition asciiToLowerChar :: "char \<Rightarrow> char" where
  "asciiToLowerChar c =
     (case map_of (zip ''ABCDEFGHIJKLMNOPQRSTUVWXYZ'' ''abcdefghijklmnopqrstuvwxyz'') c of
        None \<Rightarrow> c
      | Some l \<Rightarrow> l)"

definition asciiRuntime :: Runtime where
  "asciiRuntime =
     \<lparr> toLowerCase = map asciiToLowerChar, plusHours = (\<lambda>d h. d + h * 3600000) \<rparr>"

definition mailOk :: IEmailService where
  "mailOk =
     \<lparr> sendVerificationEmail = (\<lambda>a t n. Inr ()),
       sendWelcomeEmail = (\<lambda>a n. Inr ()),
       sendKycApprovedEmail = (\<lambda>a n. Inr ()),
       sendKycRejectedEmail = (\<lambda>a n r. Inr ()),
       sendAccountSuspendedEmail = (\<lambda>a n r. Inr ()),
       sendAccountReactivatedEmail = (\<lambda>a n. Inr ()) \<rparr>"

definition mailDown :: IEmailService where
  "mailDown =
     \<lparr> sendVerificationEmail = (\<lambda>a t n. Inl (OtherError ''SMTP connection refused'')),
       sendWelcomeEmail = (\<lambda>a n. Inl (OtherError ''SMTP connection refused'')),
       sendKycApprovedEmail = (\<lambda>a n. Inl (OtherError ''SMTP connection refused'')),
       sendKycRejectedEmail = (\<lambda>a n r. Inl (OtherError ''SMTP connection refused'')),
       sendAccountSuspendedEmail = (\<lambda>a n r. Inl (OtherError ''SMTP connection refused'')),
       sendAccountReactivatedEmail = (\<lambda>a n. Inl (OtherError ''SMTP connection refused'')) \<rparr>"

definition janeDto :: RegisterMerchantDto where
  "janeDto =
     \<lparr> RegisterMerchantDto.name = ''Jane'', email = ''jane@x.com'', password = ''pw12345678'',
       businessName = None, phone = None, website = None, businessType = None \<rparr>"

text \<open>The merchant record that registering \<open>janeDto\<close> at time 0 creates.\<close>

definition jane :: Merchant where
  "jane =
     \<lparr> id' = ''m1'', name = ''Jane'', businessName = None, email = ''jane@x.com'',
       passwordHash = Some ''$2b$10$hash'', phone = None, website = None,
       businessType = None, status = PENDING, kycStatus = KYC_NOT_STARTED,
       kycVerifiedAt = None, kycRejectionReason = None, emailVerified = False,
       emailVerificationToken = Some ''t1'', emailVerificationExpiresAt = Some 86400000,
       emailVerifiedAt = None, bankAccountNumber = None, bankRoutingNumber = None,
       bankAccountHolderName = None, bankName = None, bankSwiftCode = None, bankIban = None,
       bankAccountStatus = NOT_VERIFIED, supportedCurrencies = [''USD''],
       defaultCurrency = ''USD'', settlementFrequency = ''daily'',
       minimumSettlementAmount = 0, autoSettlementEnabled = True,
       notificationPreferences = Some getDefaultNotificationPreferences,
       apiQuotaLimit = 1000, apiQuotaUsed = 0, apiQuotaResetAt = None,
       suspensionReason = None, closedAt = None, closedReason = None \<rparr>"

definition janeStore :: store where
  "janeStore =
     snd (registerMerchant asciiRuntime mailOk (\<lambda>p r. ''$2b$10$hash'') ''t1'' ''m1'' 0 [] janeDto)"

definition closedStore :: store where
  "closedStore =
     snd (changeMerchantStatus mailOk 1 janeStore ''m1''
            \<lparr> ChangeMerchantStatusDto.status = CLOSED, reason = Some ''left'' \<rparr>)"

text \<open>
  States reached from \<open>janeStore\<close>: after the email verification; with the KYC status
  PENDING, as a KYC submission leaves it, for the verified and for the unverified
  merchant; after three admitted API calls; and with the quota limit set to zero.
\<close>

definition verifiedStore :: store where
  "verifiedStore = snd (verifyEmail mailOk 1 janeStore ''t1'')"

definition kycPendingStore :: store where
  "kycPendingStore = snd (updateKycStatus verifiedStore ''m1'' KYC_PENDING (\<lambda>m. m))"

definition kycPendingUnverifiedStore :: store where
  "kycPendingUnverifiedStore = snd (updateKycStatus janeStore ''m1'' KYC_PENDING (\<lambda>m. m))"

definition usedStore :: store where
  "usedStore = quotaCalls janeStore [''m1'', ''m1'', ''m1'']"

definition zeroQuotaStore :: store where
  "zeroQuotaStore = snd (updateApiQuota janeStore ''m1'' \<lparr> UpdateApiQuotaDto.apiQuotaLimit = 0 \<rparr>)"


text \<open>
  A store whose merchant is verified and still holds its token (the row as a second,
  concurrent verification would find it), and the request of a second registration of
  Jane's address in other letter case.
\<close>

definition verifiedWithTokenStore :: store where
  "verifiedWithTokenStore = [jane\<lparr>emailVerified := True\<rparr>]"

definition janeUpperDto :: RegisterMerchantDto where
  "janeUpperDto =
     \<lparr> RegisterMerchantDto.name = ''Jane D'', email = ''Jane@X.COM'', password = ''another-pw'',
       businessName = None, phone = None, website = None, businessType = None \<rparr>"


text \<open>The three requests of the spec's bank-account scenario, and one with an empty routing number.\<close>

definition shortAccountDto :: BankAccountDto where
  "shortAccountDto =
     \<lparr> accountNumber = ''12'', routingNumber = Some ''021000021'',
       accountHolderName = ''Jane'', BankAccountDto.bankName = ''Chase Bank'',
       swiftCode = None, iban = None \<rparr>"

definition shortRoutingDto :: BankAccountDto where
  "shortRoutingDto =
     \<lparr> accountNumber = ''1234567890'', routingNumber = Some ''123'',
       accountHolderName = ''Jane'', BankAccountDto.bankName = ''Chase Bank'',
       swiftCode = None, iban = None \<rparr>"

definition goodAccountDto :: BankAccountDto where
  "goodAccountDto =
     \<lparr> accountNumber = ''1234567890'', routingNumber = Some ''021000021'',
       accountHolderName = ''Jane'', BankAccountDto.bankName = ''Chase Bank'',
       swiftCode = Some ''CHASUS33'', iban = Some ''GB82WEST12345698765432'' \<rparr>"

definition emptyRoutingDto :: BankAccountDto where
  "emptyRoutingDto =
     \<lparr> accountNumber = ''1234567890'', routingNumber = Some '''',
       accountHolderName = ''Jane'', BankAccountDto.bankName = ''Chase Bank'',
       swiftCode = None, iban = None \<rparr>"













section \<open>Store lemmas\<close>

lemma find_patch:
  "find (\<lambda>m. id' m = j) (patch i f s) =
     (if j = i then map_option (\<lambda>m. (f m)\<lparr>id' := i\<rparr>) (find (\<lambda>m. id' m = i) s)
      else find (\<lambda>m. id' m = j) s)"
  by (induction s) (auto simp: patch_def)

lemma findById_patch:
  "findById (patch i f s) j =
     (if j = i then map_option (\<lambda>m. (f m)\<lparr>id' := i\<rparr>) (findById s i) else findById s j)"
  unfolding findById_def by (rule find_patch)

lemma findById_id: "findById s i = Some m \<Longrightarrow> id' m = i"
  by (auto simp: findById_def find_Some_iff)

lemma try_catch_log_Inr [simp]: "try_catch_log r = Inr ()"
  by (cases r) (auto simp: try_catch_log_def)

text \<open>The example stores, evaluated.\<close>

lemma janeStore_eval: "janeStore = [jane]"
  by (simp add: janeStore_def registerMerchant_def findByEmail_def create_def mailOk_def
        janeDto_def jane_def Let_def VERIFICATION_TOKEN_EXPIRY_HOURS_def asciiRuntime_def
        asciiToLowerChar_def)

lemma jane_id [simp]: "id' jane = ''m1''"
  by (simp add: jane_def)

lemma closedStore_eval:
  "closedStore = [jane\<lparr>status := CLOSED, closedAt := Some 1, closedReason := Some ''left''\<rparr>]"
  by (simp add: closedStore_def janeStore_eval changeMerchantStatus_def getMerchantById_def
        findById_def updateStatus_def update_def patch_def mailOk_def Let_def jane_def)

lemma verifiedStore_eval:
  "verifiedStore =
     [jane\<lparr>emailVerified := True, emailVerifiedAt := Some 1, emailVerificationToken := None,
           emailVerificationExpiresAt := None\<rparr>]"
  by (simp add: verifiedStore_def janeStore_eval verifyEmail_def findByVerificationToken_def
        update_def patch_def findById_def mailOk_def jane_def)

lemma kycPendingStore_eval:
  "kycPendingStore =
     [jane\<lparr>emailVerified := True, emailVerifiedAt := Some 1, emailVerificationToken := None,
           emailVerificationExpiresAt := None, kycStatus := KYC_PENDING\<rparr>]"
  by (simp add: kycPendingStore_def verifiedStore_eval updateKycStatus_def update_def patch_def
        jane_def)

lemma kycPendingUnverifiedStore_eval:
  "kycPendingUnverifiedStore = [jane\<lparr>kycStatus := KYC_PENDING\<rparr>]"
  by (simp add: kycPendingUnverifiedStore_def janeStore_eval updateKycStatus_def update_def
        patch_def jane_def)

lemma usedStore_eval: "usedStore = [jane\<lparr>apiQuotaUsed := 3\<rparr>]"
  by (simp add: usedStore_def janeStore_eval checkAndIncrementApiQuota_def getMerchantById_def
        findById_def incrementApiQuota_def patch_def jane_def)

lemma zeroQuotaStore_eval: "zeroQuotaStore = [jane\<lparr>apiQuotaLimit := 0\<rparr>]"
  by (simp add: zeroQuotaStore_def janeStore_eval updateApiQuota_def getMerchantById_def
        findById_def update_def patch_def jane_def)

lemma jane_findById: "findById janeStore ''m1'' = Some jane"
  by (simp add: janeStore_eval findById_def)

lemma patch_jane: "patch ''m1'' f [jane] = [(f jane)\<lparr>id' := ''m1''\<rparr>]"
  by (simp add: patch_def)

lemma keep_id: "id' m = i \<Longrightarrow> m\<lparr>id' := i\<rparr> = m"
  by simp

section \<open>Status transitions\<close>

lemma VALID_STATUS_TRANSITIONS_table:
  "tgt \<in> set (VALID_STATUS_TRANSITIONS st) \<longleftrightarrow>
     (st, tgt) \<in> {(PENDING, ACTIVE), (PENDING, SUSPENDED), (PENDING, CLOSED),
                  (ACTIVE, INACTIVE), (ACTIVE, SUSPENDED), (ACTIVE, CLOSED),
                  (INACTIVE, ACTIVE), (INACTIVE, SUSPENDED), (INACTIVE, CLOSED),
                  (SUSPENDED, ACTIVE), (SUSPENDED, CLOSED)}"
  by (cases st; cases tgt) simp_all

lemma changeMerchantStatus_rejected:
  assumes "findById s i = Some m"
    and "ChangeMerchantStatusDto.status dto \<notin> set (VALID_STATUS_TRANSITIONS (status m))"
  shows "changeMerchantStatus es now s i dto =
           (Inl (MerchantInvalidStatus (status m) (ChangeMerchantStatusDto.status dto)), s)"
  using assms by (simp add: changeMerchantStatus_def getMerchantById_def)

lemma changeMerchantStatus_accepted:
  assumes "findById s i = Some m"
    and "ChangeMerchantStatusDto.status dto \<in> set (VALID_STATUS_TRANSITIONS (status m))"
  shows "\<exists>m'. fst (changeMerchantStatus es now s i dto) = Inr (Some m')
            \<and> findById (snd (changeMerchantStatus es now s i dto)) i = Some m'
            \<and> status m' = ChangeMerchantStatusDto.status dto"
  using assms
  by (simp add: changeMerchantStatus_def getMerchantById_def updateStatus_def update_def
        findById_patch Let_def)

text \<open>
  C1. For a stored merchant and any requested target status, \<open>changeMerchantStatus\<close>
  succeeds, storing the target, when the pair (current, target) is an edge of the table
  PENDING \<rightarrow> {ACTIVE, SUSPENDED, CLOSED}, ACTIVE \<rightarrow> {INACTIVE, SUSPENDED, CLOSED},
  INACTIVE \<rightarrow> {ACTIVE, SUSPENDED, CLOSED}, SUSPENDED \<rightarrow> {ACTIVE, CLOSED}, CLOSED \<rightarrow> {};
  for every other pair it fails with the invalid-status error carrying the current and
  the requested status and the store is the one before the call; a CLOSED merchant
  admits no change.
\<close>

theorem changeMerchantStatus_transition_table:
  assumes "findById s i = Some m"
  shows "((status m, ChangeMerchantStatusDto.status dto) \<in>
            {(PENDING, ACTIVE), (PENDING, SUSPENDED), (PENDING, CLOSED),
             (ACTIVE, INACTIVE), (ACTIVE, SUSPENDED), (ACTIVE, CLOSED),
             (INACTIVE, ACTIVE), (INACTIVE, SUSPENDED), (INACTIVE, CLOSED),
             (SUSPENDED, ACTIVE), (SUSPENDED, CLOSED)}
          \<longrightarrow> (\<exists>m'. fst (changeMerchantStatus es now s i dto) = Inr (Some m')
                 \<and> findById (snd (changeMerchantStatus es now s i dto)) i = Some m'
                 \<and> status m' = ChangeMerchantStatusDto.status dto))
       \<and> ((status m, ChangeMerchantStatusDto.status dto) \<notin>
            {(PENDING, ACTIVE), (PENDING, SUSPENDED), (PENDING, CLOSED),
             (ACTIVE, INACTIVE), (ACTIVE, SUSPENDED), (ACTIVE, CLOSED),
             (INACTIVE, ACTIVE), (INACTIVE, SUSPENDED), (INACTIVE, CLOSED),
             (SUSPENDED, ACTIVE), (SUSPENDED, CLOSED)}
          \<longrightarrow> changeMerchantStatus es now s i dto =
                (Inl (MerchantInvalidStatus (status m) (ChangeMerchantStatusDto.status dto)), s))
       \<and> (status m = CLOSED
          \<longrightarrow> changeMerchantStatus es now s i dto =
                (Inl (MerchantInvalidStatus CLOSED (ChangeMerchantStatusDto.status dto)), s))"
proof (intro conjI impI)
  assume "(status m, ChangeMerchantStatusDto.status dto) \<in>
            {(PENDING, ACTIVE), (PENDING, SUSPENDED), (PENDING, CLOSED),
             (ACTIVE, INACTIVE), (ACTIVE, SUSPENDED), (ACTIVE, CLOSED),
             (INACTIVE, ACTIVE), (INACTIVE, SUSPENDED), (INACTIVE, CLOSED),
             (SUSPENDED, ACTIVE), (SUSPENDED, CLOSED)}"
  then have "ChangeMerchantStatusDto.status dto \<in> set (VALID_STATUS_TRANSITIONS (status m))"
    by (simp only: VALID_STATUS_TRANSITIONS_table simp_thms)
  with assms show "\<exists>m'. fst (changeMerchantStatus es now s i dto) = Inr (Some m')
            \<and> findById (snd (changeMerchantStatus es now s i dto)) i = Some m'
            \<and> status m' = ChangeMerchantStatusDto.status dto"
    by (rule changeMerchantStatus_accepted)
next
  assume "(status m, ChangeMerchantStatusDto.status dto) \<notin>
            {(PENDING, ACTIVE), (PENDING, SUSPENDED), (PENDING, CLOSED),
             (ACTIVE, INACTIVE), (ACTIVE, SUSPENDED), (ACTIVE, CLOSED),
             (INACTIVE, ACTIVE), (INACTIVE, SUSPENDED), (INACTIVE, CLOSED),
             (SUSPENDED, ACTIVE), (SUSPENDED, CLOSED)}"
  then have "ChangeMerchantStatusDto.status dto \<notin> set (VALID_STATUS_TRANSITIONS (status m))"
    by (simp only: VALID_STATUS_TRANSITIONS_table simp_thms)
  with assms show "changeMerchantStatus es now s i dto =
      (Inl (MerchantInvalidStatus (status m) (ChangeMerchantStatusDto.status dto)), s)"
    by (rule changeMerchantStatus_rejected)
next
  assume c: "status m = CLOSED"
  then have "ChangeMerchantStatusDto.status dto \<notin> set (VALID_STATUS_TRANSITIONS (status m))"
    by simp
  with assms have "changeMerchantStatus es now s i dto =
      (Inl (MerchantInvalidStatus (status m) (ChangeMerchantStatusDto.status dto)), s)"
    by (rule changeMerchantStatus_rejected)
  with c show "changeMerchantStatus es now s i dto =
      (Inl (MerchantInvalidStatus CLOSED (ChangeMerchantStatusDto.status dto)), s)"
    by simp
qed

theorem changeMerchantStatus_transition_table_witness:
  "findById janeStore ''m1'' = Some (hd janeStore)
   \<and> (\<exists>m'. fst (changeMerchantStatus mailOk 5 janeStore ''m1''
                  \<lparr> ChangeMerchantStatusDto.status = ACTIVE, reason = None \<rparr>) = Inr (Some m')
          \<and> status m' = ACTIVE)
   \<and> changeMerchantStatus mailOk 5 janeStore ''m1''
         \<lparr> ChangeMerchantStatusDto.status = INACTIVE, reason = None \<rparr>
       = (Inl (MerchantInvalidStatus PENDING INACTIVE), janeStore)
   \<and> findById closedStore ''m1'' = Some (hd closedStore)
   \<and> changeMerchantStatus mailOk 5 closedStore ''m1''
         \<lparr> ChangeMerchantStatusDto.status = ACTIVE, reason = None \<rparr>
       = (Inl (MerchantInvalidStatus CLOSED ACTIVE), closedStore)"
proof -
  have h: "findById janeStore ''m1'' = Some (hd janeStore)"
    by (simp add: janeStore_eval findById_def)
  have st: "status (hd janeStore) = PENDING"
    by (simp add: janeStore_eval jane_def)
  have hc: "findById closedStore ''m1'' = Some (hd closedStore)"
    by (simp add: closedStore_eval findById_def)
  have stc: "status (hd closedStore) = CLOSED"
    by (simp add: closedStore_eval)
  show ?thesis
    using h st hc stc
      changeMerchantStatus_transition_table [OF h,
        of "\<lparr> ChangeMerchantStatusDto.status = ACTIVE, reason = None \<rparr>" mailOk 5]
      changeMerchantStatus_transition_table [OF h,
        of "\<lparr> ChangeMerchantStatusDto.status = INACTIVE, reason = None \<rparr>" mailOk 5]
      changeMerchantStatus_transition_table [OF hc,
        of "\<lparr> ChangeMerchantStatusDto.status = ACTIVE, reason = None \<rparr>" mailOk 5]
    by auto
qed

section \<open>KYC decision\<close>

lemma verifyKyc_invalid:
  assumes "findById s i = Some m"
    and "kycStatus m \<noteq> KYC_PENDING" and "kycStatus m \<noteq> KYC_IN_REVIEW"
  shows "verifyKyc es now s i dto = (Inl (KycInvalidStatus (kycStatus m) (decision dto)), s)"
  using assms by (simp add: verifyKyc_def getMerchantById_def)

lemma verifyKyc_approved:
  assumes "findById s i = Some m"
    and "kycStatus m = KYC_PENDING \<or> kycStatus m = KYC_IN_REVIEW"
    and "decision dto = approved"
  shows "\<exists>m'. fst (verifyKyc es now s i dto) = Inr (Some m')
            \<and> findById (snd (verifyKyc es now s i dto)) i = Some m'
            \<and> kycStatus m' = KYC_APPROVED
            \<and> kycVerifiedAt m' = Some now
            \<and> status m' = (if emailVerified m \<and> status m = PENDING then ACTIVE else status m)"
  using assms
  by (auto simp add: verifyKyc_def getMerchantById_def updateKycStatus_def updateStatus_def
        update_def findById_patch)

text \<open>
  C2. For a stored merchant whose KYC status is neither PENDING nor IN_REVIEW, \<open>verifyKyc\<close>
  fails with the KYC invalid-status error and the store is the one before the call. For
  a KYC status PENDING or IN_REVIEW, the decision "approved" returns and stores the
  merchant with KYC status APPROVED and \<open>kycVerifiedAt\<close> set to the time of the call; its
  status is ACTIVE exactly when the email was verified and the status was PENDING, and
  is the status before the call otherwise (so with an unverified email it is unchanged).
\<close>

theorem verifyKyc_decision:
  assumes "findById s i = Some m"
  shows "(kycStatus m \<noteq> KYC_PENDING \<and> kycStatus m \<noteq> KYC_IN_REVIEW
            \<longrightarrow> verifyKyc es now s i dto =
                  (Inl (KycInvalidStatus (kycStatus m) (decision dto)), s))
       \<and> ((kycStatus m = KYC_PENDING \<or> kycStatus m = KYC_IN_REVIEW) \<and> decision dto = approved
            \<longrightarrow> (\<exists>m'. fst (verifyKyc es now s i dto) = Inr (Some m')
                   \<and> findById (snd (verifyKyc es now s i dto)) i = Some m'
                   \<and> kycStatus m' = KYC_APPROVED
                   \<and> kycVerifiedAt m' = Some now
                   \<and> status m' =
                       (if emailVerified m \<and> status m = PENDING then ACTIVE else status m)))"
  using verifyKyc_invalid [OF assms] verifyKyc_approved [OF assms] by blast

theorem verifyKyc_decision_witness:
  "findById janeStore ''m1'' = Some jane
   \<and> verifyKyc mailOk 9 janeStore ''m1'' \<lparr> decision = approved, rejectionReason = None \<rparr>
       = (Inl (KycInvalidStatus KYC_NOT_STARTED approved), janeStore)
   \<and> (\<exists>m'. fst (verifyKyc mailOk 9 kycPendingStore ''m1''
                   \<lparr> decision = approved, rejectionReason = None \<rparr>) = Inr (Some m')
          \<and> kycStatus m' = KYC_APPROVED \<and> kycVerifiedAt m' = Some 9 \<and> status m' = ACTIVE)
   \<and> (\<exists>m'. fst (verifyKyc mailOk 9 kycPendingUnverifiedStore ''m1''
                   \<lparr> decision = approved, rejectionReason = None \<rparr>) = Inr (Some m')
          \<and> kycStatus m' = KYC_APPROVED \<and> kycVerifiedAt m' = Some 9 \<and> status m' = PENDING)"
proof -
  have a: "findById janeStore ''m1'' = Some jane"
    by (simp add: janeStore_eval findById_def)
  have b: "findById kycPendingStore ''m1'' = Some (hd kycPendingStore)"
    by (simp add: kycPendingStore_eval findById_def)
  have c: "findById kycPendingUnverifiedStore ''m1'' = Some (hd kycPendingUnverifiedStore)"
    by (simp add: kycPendingUnverifiedStore_eval findById_def)
  have a': "kycStatus jane = KYC_NOT_STARTED"
    by (simp add: jane_def)
  have b': "kycStatus (hd kycPendingStore) = KYC_PENDING" "emailVerified (hd kycPendingStore)"
    "status (hd kycPendingStore) = PENDING"
    by (simp_all add: kycPendingStore_eval jane_def)
  have c': "kycStatus (hd kycPendingUnverifiedStore) = KYC_PENDING"
    "\<not> emailVerified (hd kycPendingUnverifiedStore)"
    "status (hd kycPendingUnverifiedStore) = PENDING"
    by (simp_all add: kycPendingUnverifiedStore_eval jane_def)
  show ?thesis
    using a a' b' c'
      verifyKyc_decision [OF a, of mailOk 9 "\<lparr> decision = approved, rejectionReason = None \<rparr>"]
      verifyKyc_decision [OF b, of mailOk 9 "\<lparr> decision = approved, rejectionReason = None \<rparr>"]
      verifyKyc_decision [OF c, of mailOk 9 "\<lparr> decision = approved, rejectionReason = None \<rparr>"]
    by auto
qed

section \<open>API quota\<close>

lemma checkAndIncrementApiQuota_exceeded:
  assumes "findById s i = Some m" and "apiQuotaLimit m \<le> apiQuotaUsed m"
  shows "checkAndIncrementApiQuota s i =
           (Inl (ApiQuotaExceeded (apiQuotaLimit m) (apiQuotaResetAt m)), s)"
  using assms by (simp add: checkAndIncrementApiQuota_def getMerchantById_def)

lemma checkAndIncrementApiQuota_admitted:
  assumes "findById s i = Some m" and "apiQuotaUsed m < apiQuotaLimit m"
  shows "checkAndIncrementApiQuota s i = (Inr (), incrementApiQuota s i)"
  using assms by (simp add: checkAndIncrementApiQuota_def getMerchantById_def)

lemma findById_incrementApiQuota:
  "findById (incrementApiQuota s i) j =
     (if j = i then map_option (\<lambda>m. m\<lparr>apiQuotaUsed := apiQuotaUsed m + 1, id' := i\<rparr>) (findById s i)
      else findById s j)"
  by (simp add: incrementApiQuota_def findById_patch)

lemma checkAndIncrementApiQuota_step:
  assumes "findById s j = Some m" and "apiQuotaUsed m \<le> apiQuotaLimit m"
  shows "\<exists>m'. findById (snd (checkAndIncrementApiQuota s i)) j = Some m'
            \<and> apiQuotaUsed m' \<le> apiQuotaLimit m' \<and> apiQuotaLimit m' = apiQuotaLimit m"
proof (cases "findById s i")
  case None
  with assms show ?thesis
    by (simp add: checkAndIncrementApiQuota_def getMerchantById_def)
next
  case (Some c)
  show ?thesis
  proof (cases "apiQuotaLimit c \<le> apiQuotaUsed c")
    case True
    with Some assms show ?thesis
      by (simp add: checkAndIncrementApiQuota_exceeded)
  next
    case False
    with Some have "checkAndIncrementApiQuota s i = (Inr (), incrementApiQuota s i)"
      by (simp add: checkAndIncrementApiQuota_admitted)
    with Some False assms show ?thesis
      by (auto simp: findById_incrementApiQuota)
  qed
qed

lemma quotaCalls_invariant:
  assumes "findById s j = Some m" and "apiQuotaUsed m \<le> apiQuotaLimit m"
  shows "\<exists>m'. findById (quotaCalls s js) j = Some m'
            \<and> apiQuotaUsed m' \<le> apiQuotaLimit m' \<and> apiQuotaLimit m' = apiQuotaLimit m"
  using assms
proof (induction js arbitrary: s m)
  case Nil
  then show ?case by simp
next
  case (Cons i js)
  from checkAndIncrementApiQuota_step [OF Cons.prems, of i]
  obtain c where c: "findById (snd (checkAndIncrementApiQuota s i)) j = Some c"
    "apiQuotaUsed c \<le> apiQuotaLimit c" "apiQuotaLimit c = apiQuotaLimit m"
    by blast
  from Cons.IH [OF c(1) c(2)] c(3) show ?case by simp
qed

text \<open>
  C3. For a stored merchant, \<open>checkAndIncrementApiQuota\<close> fails with the quota-exceeded
  error, carrying the limit and the reset time, exactly when \<open>apiQuotaUsed \<ge> apiQuotaLimit\<close>,
  and then leaves the store as it was; otherwise it returns normally and the stored
  counter is one higher, the limit the same. Hence a merchant whose counter is within
  its limit stays within it after any sequence of calls, for this or any other id.
\<close>

theorem checkAndIncrementApiQuota_bound:
  assumes "findById s i = Some m"
  shows "(fst (checkAndIncrementApiQuota s i)
             = Inl (ApiQuotaExceeded (apiQuotaLimit m) (apiQuotaResetAt m))
           \<longleftrightarrow> apiQuotaUsed m \<ge> apiQuotaLimit m)
       \<and> (apiQuotaUsed m \<ge> apiQuotaLimit m \<longrightarrow> snd (checkAndIncrementApiQuota s i) = s)
       \<and> (apiQuotaUsed m < apiQuotaLimit m \<longrightarrow>
            fst (checkAndIncrementApiQuota s i) = Inr ()
            \<and> (\<exists>m'. findById (snd (checkAndIncrementApiQuota s i)) i = Some m'
                   \<and> apiQuotaUsed m' = apiQuotaUsed m + 1
                   \<and> apiQuotaLimit m' = apiQuotaLimit m))
       \<and> (apiQuotaUsed m \<le> apiQuotaLimit m \<longrightarrow>
            (\<forall>js. \<exists>m'. findById (quotaCalls s js) i = Some m'
                   \<and> apiQuotaUsed m' \<le> apiQuotaLimit m'))"
proof (intro conjI impI allI)
  show "fst (checkAndIncrementApiQuota s i)
             = Inl (ApiQuotaExceeded (apiQuotaLimit m) (apiQuotaResetAt m))
           \<longleftrightarrow> apiQuotaUsed m \<ge> apiQuotaLimit m"
    using assms by (simp add: checkAndIncrementApiQuota_def getMerchantById_def)
next
  assume "apiQuotaUsed m \<ge> apiQuotaLimit m"
  with assms show "snd (checkAndIncrementApiQuota s i) = s"
    by (simp add: checkAndIncrementApiQuota_exceeded)
next
  assume "apiQuotaUsed m < apiQuotaLimit m"
  with assms show "fst (checkAndIncrementApiQuota s i) = Inr ()"
    by (simp add: checkAndIncrementApiQuota_admitted)
next
  assume "apiQuotaUsed m < apiQuotaLimit m"
  with assms show "\<exists>m'. findById (snd (checkAndIncrementApiQuota s i)) i = Some m'
                   \<and> apiQuotaUsed m' = apiQuotaUsed m + 1
                   \<and> apiQuotaLimit m' = apiQuotaLimit m"
    by (simp add: checkAndIncrementApiQuota_admitted findById_incrementApiQuota)
next
  fix js
  assume "apiQuotaUsed m \<le> apiQuotaLimit m"
  with quotaCalls_invariant [OF assms, of js]
  show "\<exists>m'. findById (quotaCalls s js) i = Some m' \<and> apiQuotaUsed m' \<le> apiQuotaLimit m'"
    by blast
qed

theorem checkAndIncrementApiQuota_bound_witness:
  "findById janeStore ''m1'' = Some jane
   \<and> fst (checkAndIncrementApiQuota janeStore ''m1'') = Inr ()
   \<and> (\<exists>m'. findById (snd (checkAndIncrementApiQuota janeStore ''m1'')) ''m1'' = Some m'
          \<and> apiQuotaUsed m' = 1 \<and> apiQuotaLimit m' = 1000)
   \<and> (\<exists>m'. findById (quotaCalls janeStore [''m1'', ''m2'', ''m1'']) ''m1'' = Some m'
          \<and> apiQuotaUsed m' \<le> apiQuotaLimit m')
   \<and> checkAndIncrementApiQuota zeroQuotaStore ''m1''
       = (Inl (ApiQuotaExceeded 0 None), zeroQuotaStore)"
proof -
  have a: "findById janeStore ''m1'' = Some jane"
    by (simp add: janeStore_eval findById_def)
  have a': "apiQuotaUsed jane = 0" "apiQuotaLimit jane = 1000"
    by (simp_all add: jane_def)
  have z: "findById zeroQuotaStore ''m1'' = Some (hd zeroQuotaStore)"
    by (simp add: zeroQuotaStore_eval findById_def)
  have z': "apiQuotaUsed (hd zeroQuotaStore) = 0" "apiQuotaLimit (hd zeroQuotaStore) = 0"
    "apiQuotaResetAt (hd zeroQuotaStore) = None"
    by (simp_all add: zeroQuotaStore_eval jane_def)
  have "fst (checkAndIncrementApiQuota zeroQuotaStore ''m1'') = Inl (ApiQuotaExceeded 0 None)"
    "snd (checkAndIncrementApiQuota zeroQuotaStore ''m1'') = zeroQuotaStore"
    using checkAndIncrementApiQuota_bound [OF z] z' by simp_all
  then have zz: "checkAndIncrementApiQuota zeroQuotaStore ''m1''
       = (Inl (ApiQuotaExceeded 0 None), zeroQuotaStore)"
    by (simp add: prod_eq_iff)
  from checkAndIncrementApiQuota_bound [OF a] a'
  have "\<forall>js. \<exists>m'. findById (quotaCalls janeStore js) ''m1'' = Some m'
          \<and> apiQuotaUsed m' \<le> apiQuotaLimit m'"
    by simp
  then have seq: "\<exists>m'. findById (quotaCalls janeStore [''m1'', ''m2'', ''m1'']) ''m1'' = Some m'
          \<and> apiQuotaUsed m' \<le> apiQuotaLimit m'"
    by blast
  from checkAndIncrementApiQuota_bound [OF a] a'
  have one: "fst (checkAndIncrementApiQuota janeStore ''m1'') = Inr ()
     \<and> (\<exists>m'. findById (snd (checkAndIncrementApiQuota janeStore ''m1'')) ''m1'' = Some m'
          \<and> apiQuotaUsed m' = 1 \<and> apiQuotaLimit m' = 1000)"
    by simp
  from a one seq zz show ?thesis
    by blast
qed

lemma quotaCalls_blocked:
  assumes "findById s i = Some m" and "apiQuotaLimit m \<le> apiQuotaUsed m"
  shows "quotaCalls s (replicate n i) = s"
  using assms by (induction n) (simp_all add: checkAndIncrementApiQuota_exceeded)

lemma updateApiQuota_found:
  assumes "findById s i = Some m"
  shows "updateApiQuota s i dto =
           (Inr (Some (m\<lparr>apiQuotaLimit := UpdateApiQuotaDto.apiQuotaLimit dto, id' := i\<rparr>)),
            patch i (\<lambda>m. m\<lparr>apiQuotaLimit := UpdateApiQuotaDto.apiQuotaLimit dto\<rparr>) s)"
  using assms by (simp add: updateApiQuota_def getMerchantById_def update_def findById_patch)

text \<open>
  C10. \<open>updateApiQuota\<close> stores the requested limit for any stored merchant, whatever its
  counter, and leaves the counter as it is. When the requested limit is below the
  counter, the counter exceeds the limit afterwards, and every following
  \<open>checkAndIncrementApiQuota\<close> for that merchant fails with the quota-exceeded error and
  changes nothing, however often it is called. The state is reachable: three admitted
  calls after registration, then a limit of 2.
\<close>

theorem updateApiQuota_unchecked:
  assumes "findById s i = Some m"
  shows "(\<exists>m'. fst (updateApiQuota s i dto) = Inr (Some m')
            \<and> findById (snd (updateApiQuota s i dto)) i = Some m'
            \<and> apiQuotaLimit m' = UpdateApiQuotaDto.apiQuotaLimit dto
            \<and> apiQuotaUsed m' = apiQuotaUsed m)
       \<and> (UpdateApiQuotaDto.apiQuotaLimit dto < apiQuotaUsed m \<longrightarrow>
            (\<forall>n. quotaCalls (snd (updateApiQuota s i dto)) (replicate n i)
                   = snd (updateApiQuota s i dto))
            \<and> checkAndIncrementApiQuota (snd (updateApiQuota s i dto)) i
                = (Inl (ApiQuotaExceeded (UpdateApiQuotaDto.apiQuotaLimit dto) (apiQuotaResetAt m)),
                   snd (updateApiQuota s i dto)))"
proof -
  let ?m' = "m\<lparr>apiQuotaLimit := UpdateApiQuotaDto.apiQuotaLimit dto, id' := i\<rparr>"
  let ?s' = "snd (updateApiQuota s i dto)"
  have r: "fst (updateApiQuota s i dto) = Inr (Some ?m')"
    by (simp add: updateApiQuota_found [OF assms])
  have f: "findById ?s' i = Some ?m'"
    using assms by (simp add: updateApiQuota_found [OF assms] findById_patch)
  have blocked: "apiQuotaLimit ?m' \<le> apiQuotaUsed ?m'"
    if "UpdateApiQuotaDto.apiQuotaLimit dto < apiQuotaUsed m"
    using that by simp
  show ?thesis
  proof (intro conjI impI allI)
    show "\<exists>m'. fst (updateApiQuota s i dto) = Inr (Some m')
            \<and> findById ?s' i = Some m'
            \<and> apiQuotaLimit m' = UpdateApiQuotaDto.apiQuotaLimit dto
            \<and> apiQuotaUsed m' = apiQuotaUsed m"
      using r f by simp
  next
    fix n
    assume "UpdateApiQuotaDto.apiQuotaLimit dto < apiQuotaUsed m"
    from quotaCalls_blocked [OF f blocked [OF this]]
    show "quotaCalls ?s' (replicate n i) = ?s'" .
  next
    assume "UpdateApiQuotaDto.apiQuotaLimit dto < apiQuotaUsed m"
    from checkAndIncrementApiQuota_exceeded [OF f blocked [OF this]]
    show "checkAndIncrementApiQuota ?s' i
            = (Inl (ApiQuotaExceeded (UpdateApiQuotaDto.apiQuotaLimit dto) (apiQuotaResetAt m)), ?s')"
      by simp
  qed
qed

theorem updateApiQuota_unchecked_witness:
  "findById usedStore ''m1'' = Some (hd usedStore)
   \<and> apiQuotaUsed (hd usedStore) = 3
   \<and> (\<exists>m'. findById (snd (updateApiQuota usedStore ''m1'' \<lparr> UpdateApiQuotaDto.apiQuotaLimit = 2 \<rparr>))
                ''m1'' = Some m'
          \<and> apiQuotaLimit m' = 2 \<and> apiQuotaUsed m' = 3 \<and> apiQuotaLimit m' < apiQuotaUsed m')
   \<and> checkAndIncrementApiQuota
         (snd (updateApiQuota usedStore ''m1'' \<lparr> UpdateApiQuotaDto.apiQuotaLimit = 2 \<rparr>)) ''m1''
       = (Inl (ApiQuotaExceeded 2 None),
          snd (updateApiQuota usedStore ''m1'' \<lparr> UpdateApiQuotaDto.apiQuotaLimit = 2 \<rparr>))
   \<and> quotaCalls (snd (updateApiQuota usedStore ''m1'' \<lparr> UpdateApiQuotaDto.apiQuotaLimit = 2 \<rparr>))
         (replicate 7 ''m1'')
       = snd (updateApiQuota usedStore ''m1'' \<lparr> UpdateApiQuotaDto.apiQuotaLimit = 2 \<rparr>)"
proof -
  have u: "findById usedStore ''m1'' = Some (hd usedStore)"
    by (simp add: usedStore_eval findById_def)
  have u': "apiQuotaUsed (hd usedStore) = 3" "apiQuotaResetAt (hd usedStore) = None"
    by (simp_all add: usedStore_eval jane_def)
  show ?thesis
    using u u' updateApiQuota_unchecked [OF u, of "\<lparr> UpdateApiQuotaDto.apiQuotaLimit = 2 \<rparr>"]
    by auto
qed

section \<open>Currency settings\<close>

lemma validateMerchantActive_ok:
  "status m \<noteq> SUSPENDED \<Longrightarrow> status m \<noteq> CLOSED \<Longrightarrow> validateMerchantActive m = Inr ()"
  by (simp add: validateMerchantActive_def)

text \<open>
  C6. For a stored merchant that is neither SUSPENDED nor CLOSED and any request,
  \<open>updateCurrencySettings\<close> returns and stores the merchant with the requested default
  currency and with the requested list of supported currencies, the default appended
  when the list lacks it; so the stored default is a member of the stored list.
\<close>

theorem updateCurrencySettings_default_supported:
  assumes "findById s i = Some m" and "status m \<noteq> SUSPENDED" and "status m \<noteq> CLOSED"
  shows "\<exists>m'. fst (updateCurrencySettings s i dto) = Inr (Some m')
            \<and> findById (snd (updateCurrencySettings s i dto)) i = Some m'
            \<and> defaultCurrency m' = CurrencySettingsDto.defaultCurrency dto
            \<and> supportedCurrencies m' =
                 (if CurrencySettingsDto.defaultCurrency dto
                       \<in> set (CurrencySettingsDto.supportedCurrencies dto)
                  then CurrencySettingsDto.supportedCurrencies dto
                  else CurrencySettingsDto.supportedCurrencies dto
                         @ [CurrencySettingsDto.defaultCurrency dto])
            \<and> defaultCurrency m' \<in> set (supportedCurrencies m')"
  using assms
  by (simp add: updateCurrencySettings_def getMerchantById_def validateMerchantActive_ok
        update_def findById_patch Let_def)

theorem updateCurrencySettings_default_supported_witness:
  "findById janeStore ''m1'' = Some jane \<and> status jane \<noteq> SUSPENDED \<and> status jane \<noteq> CLOSED
   \<and> (\<exists>m'. fst (updateCurrencySettings janeStore ''m1''
                   \<lparr> CurrencySettingsDto.supportedCurrencies = [''EUR'', ''USD''],
                     defaultCurrency = ''GBP'' \<rparr>) = Inr (Some m')
          \<and> defaultCurrency m' = ''GBP''
          \<and> supportedCurrencies m' = [''EUR'', ''USD'', ''GBP''])"
proof -
  have a: "findById janeStore ''m1'' = Some jane"
    by (simp add: janeStore_eval findById_def)
  have a': "status jane \<noteq> SUSPENDED" "status jane \<noteq> CLOSED"
    by (simp_all add: jane_def)
  show ?thesis
    using a a'
      updateCurrencySettings_default_supported [OF a a',
        of "\<lparr> CurrencySettingsDto.supportedCurrencies = [''EUR'', ''USD''],
              defaultCurrency = ''GBP'' \<rparr>"]
    by auto
qed

section \<open>Email verification\<close>

lemma verifyEmail_invalid:
  assumes "findByVerificationToken s t = None"
  shows "verifyEmail es now s t = (Inl MerchantVerificationTokenInvalid, s)"
  using assms by (simp add: verifyEmail_def)

lemma verifyEmail_already:
  assumes "findByVerificationToken s t = Some m" and "emailVerified m"
  shows "verifyEmail es now s t = (Inl MerchantEmailAlreadyVerified, s)"
  using assms by (simp add: verifyEmail_def)

lemma verifyEmail_expired:
  assumes "findByVerificationToken s t = Some m" and "\<not> emailVerified m"
    and "emailVerificationExpiresAt m = Some e" and "e < now"
  shows "verifyEmail es now s t = (Inl MerchantVerificationTokenExpired, s)"
  using assms by (simp add: verifyEmail_def)

lemma verifyEmail_success:
  assumes "findByVerificationToken s t = Some m" and "\<not> emailVerified m"
    and "\<not> (\<exists>e. emailVerificationExpiresAt m = Some e \<and> e < now)"
  shows "verifyEmail es now s t =
           (Inr (findById
                   (patch (id' m)
                      (\<lambda>m. m\<lparr>emailVerified := True, emailVerifiedAt := Some now,
                             emailVerificationToken := None,
                             emailVerificationExpiresAt := None\<rparr>) s) (id' m)),
            patch (id' m)
              (\<lambda>m. m\<lparr>emailVerified := True, emailVerifiedAt := Some now,
                     emailVerificationToken := None,
                     emailVerificationExpiresAt := None\<rparr>) s)"
  using assms by (auto simp add: verifyEmail_def update_def split: option.splits)

lemma findByVerificationToken_mem:
  "findByVerificationToken s t = Some m \<Longrightarrow> m \<in> set s"
  by (auto simp: findByVerificationToken_def find_Some_iff)

lemma findById_first:
  "m \<in> set s \<Longrightarrow> \<exists>c. findById s (id' m) = Some c"
  by (cases "findById s (id' m)") (auto simp: findById_def find_None_iff)

lemma findByVerificationToken_patch_cleared:
  assumes "\<forall>x\<in>set s. emailVerificationToken x = Some t \<longrightarrow> id' x = i"
    and "\<And>x. emailVerificationToken (f x) = None"
  shows "findByVerificationToken (patch i f s) t = None"
  using assms by (auto simp: findByVerificationToken_def find_None_iff patch_def)

lemma findByVerificationToken_patch_other:
  assumes "findByVerificationToken (patch i f s) t' = Some x"
    and "\<And>y. emailVerificationToken (f y) = None"
  shows "id' x \<noteq> i"
proof
  assume "id' x = i"
  from assms(1) have mem: "x \<in> set (patch i f s)" and tok: "emailVerificationToken x = Some t'"
    by (auto simp: findByVerificationToken_def find_Some_iff)
  from mem have "\<exists>y. x = (if id' y = i then (f y)\<lparr>id' := i\<rparr> else y)"
    unfolding patch_def by (simp add: image_iff) blast
  then obtain y where "x = (if id' y = i then (f y)\<lparr>id' := i\<rparr> else y)" ..
  with \<open>id' x = i\<close> have "x = (f y)\<lparr>id' := i\<rparr>"
    by (auto split: if_splits)
  with assms(2) [of y] tok show False by simp
qed

text \<open>
  C5. \<open>verifyEmail\<close> fails with the token-invalid error when no merchant holds the token;
  when one does, with the already-verified error if its email is verified, at any
  time; else with the token-expired error if the expiry has passed, at that and at
  every later time; each failure leaves the store as it was. Otherwise it returns and
  stores the merchant with \<open>emailVerified\<close> set, \<open>emailVerifiedAt\<close> the time of the call,
  and token and expiry cleared; afterwards no token at all is resolved to a merchant of
  that id; and, the token being held by no merchant under another id (tokens are 32
  random bytes), every later \<open>verifyEmail\<close> with this token fails with the
  token-invalid error.
\<close>

theorem verifyEmail_precedence:
  "(findByVerificationToken s t = None
      \<longrightarrow> verifyEmail es now s t = (Inl MerchantVerificationTokenInvalid, s))
   \<and> (\<forall>m. findByVerificationToken s t = Some m \<longrightarrow>
        (emailVerified m
           \<longrightarrow> (\<forall>now'. verifyEmail es now' s t = (Inl MerchantEmailAlreadyVerified, s)))
      \<and> (\<not> emailVerified m \<and> (\<exists>e. emailVerificationExpiresAt m = Some e \<and> e < now)
           \<longrightarrow> (\<forall>now'\<ge>now. verifyEmail es now' s t = (Inl MerchantVerificationTokenExpired, s)))
      \<and> (\<not> emailVerified m \<and> \<not> (\<exists>e. emailVerificationExpiresAt m = Some e \<and> e < now)
           \<longrightarrow> (\<exists>m'. fst (verifyEmail es now s t) = Inr (Some m')
                  \<and> findById (snd (verifyEmail es now s t)) (id' m) = Some m'
                  \<and> emailVerified m' \<and> emailVerifiedAt m' = Some now
                  \<and> emailVerificationToken m' = None
                  \<and> emailVerificationExpiresAt m' = None)
             \<and> (\<forall>t' x. findByVerificationToken (snd (verifyEmail es now s t)) t' = Some x
                    \<longrightarrow> id' x \<noteq> id' m)
             \<and> ((\<forall>x\<in>set s. emailVerificationToken x = Some t \<longrightarrow> id' x = id' m)
                  \<longrightarrow> (\<forall>es' now'. verifyEmail es' now' (snd (verifyEmail es now s t)) t
                          = (Inl MerchantVerificationTokenInvalid,
                             snd (verifyEmail es now s t))))))"
proof (intro conjI allI impI ballI)
  assume "findByVerificationToken s t = None"
  then show "verifyEmail es now s t = (Inl MerchantVerificationTokenInvalid, s)"
    by (rule verifyEmail_invalid)
next
  fix m now'
  assume "findByVerificationToken s t = Some m" and "emailVerified m"
  then show "verifyEmail es now' s t = (Inl MerchantEmailAlreadyVerified, s)"
    by (rule verifyEmail_already)
next
  fix m now'
  assume f: "findByVerificationToken s t = Some m"
    and x: "\<not> emailVerified m \<and> (\<exists>e. emailVerificationExpiresAt m = Some e \<and> e < now)"
    and later: "now \<le> now'"
  from x obtain e where "emailVerificationExpiresAt m = Some e" and "e < now" by blast
  with later have "emailVerificationExpiresAt m = Some e" and "e < now'" by simp_all
  with f x show "verifyEmail es now' s t = (Inl MerchantVerificationTokenExpired, s)"
    by (simp add: verifyEmail_expired)
next
  fix m
  assume f: "findByVerificationToken s t = Some m"
    and x: "\<not> emailVerified m \<and> \<not> (\<exists>e. emailVerificationExpiresAt m = Some e \<and> e < now)"
  from f have "m \<in> set s" by (rule findByVerificationToken_mem)
  then obtain c where c: "findById s (id' m) = Some c" using findById_first by blast
  from f x c show "\<exists>m'. fst (verifyEmail es now s t) = Inr (Some m')
                  \<and> findById (snd (verifyEmail es now s t)) (id' m) = Some m'
                  \<and> emailVerified m' \<and> emailVerifiedAt m' = Some now
                  \<and> emailVerificationToken m' = None
                  \<and> emailVerificationExpiresAt m' = None"
    by (simp add: verifyEmail_success findById_patch)
next
  fix m t' x
  assume f: "findByVerificationToken s t = Some m"
    and x: "\<not> emailVerified m \<and> \<not> (\<exists>e. emailVerificationExpiresAt m = Some e \<and> e < now)"
    and g: "findByVerificationToken (snd (verifyEmail es now s t)) t' = Some x"
  from f x have s': "snd (verifyEmail es now s t) =
      patch (id' m)
        (\<lambda>m. m\<lparr>emailVerified := True, emailVerifiedAt := Some now,
               emailVerificationToken := None, emailVerificationExpiresAt := None\<rparr>) s"
    by (simp add: verifyEmail_success)
  from g [unfolded s'] show "id' x \<noteq> id' m"
    by (rule findByVerificationToken_patch_other) simp
next
  fix m es' now'
  assume f: "findByVerificationToken s t = Some m"
    and x: "\<not> emailVerified m \<and> \<not> (\<exists>e. emailVerificationExpiresAt m = Some e \<and> e < now)"
    and u: "\<forall>x\<in>set s. emailVerificationToken x = Some t \<longrightarrow> id' x = id' m"
  from f x have s': "snd (verifyEmail es now s t) =
      patch (id' m)
        (\<lambda>m. m\<lparr>emailVerified := True, emailVerifiedAt := Some now,
               emailVerificationToken := None, emailVerificationExpiresAt := None\<rparr>) s"
    by (simp add: verifyEmail_success)
  have "findByVerificationToken (snd (verifyEmail es now s t)) t = None"
    unfolding s' by (rule findByVerificationToken_patch_cleared [OF u]) simp
  then show "verifyEmail es' now' (snd (verifyEmail es now s t)) t
               = (Inl MerchantVerificationTokenInvalid, snd (verifyEmail es now s t))"
    by (rule verifyEmail_invalid)
qed

theorem verifyEmail_precedence_witness:
  "findByVerificationToken janeStore ''no-such-token'' = None
   \<and> verifyEmail mailOk 1 janeStore ''no-such-token''
       = (Inl MerchantVerificationTokenInvalid, janeStore)
   \<and> findByVerificationToken verifiedWithTokenStore ''t1'' = Some (jane\<lparr>emailVerified := True\<rparr>)
   \<and> verifyEmail mailOk 1 verifiedWithTokenStore ''t1''
       = (Inl MerchantEmailAlreadyVerified, verifiedWithTokenStore)
   \<and> findByVerificationToken janeStore ''t1'' = Some jane
   \<and> verifyEmail mailOk 90000000 janeStore ''t1''
       = (Inl MerchantVerificationTokenExpired, janeStore)
   \<and> (\<exists>m'. fst (verifyEmail mailOk 1 janeStore ''t1'') = Inr (Some m')
          \<and> emailVerified m' \<and> emailVerifiedAt m' = Some 1
          \<and> emailVerificationToken m' = None \<and> emailVerificationExpiresAt m' = None)
   \<and> verifyEmail mailOk 2 (snd (verifyEmail mailOk 1 janeStore ''t1'')) ''t1''
       = (Inl MerchantVerificationTokenInvalid, snd (verifyEmail mailOk 1 janeStore ''t1''))"
proof -
  have f1: "findByVerificationToken janeStore ''no-such-token'' = None"
    by (simp add: janeStore_eval findByVerificationToken_def jane_def)
  have f2: "findByVerificationToken verifiedWithTokenStore ''t1''
              = Some (jane\<lparr>emailVerified := True\<rparr>)"
    by (simp add: verifiedWithTokenStore_def findByVerificationToken_def jane_def)
  have f3: "findByVerificationToken janeStore ''t1'' = Some jane"
    by (simp add: janeStore_eval findByVerificationToken_def jane_def)
  have j: "\<not> emailVerified jane" "emailVerificationExpiresAt jane = Some 86400000"
    by (simp_all add: jane_def)
  have u: "\<forall>x\<in>set janeStore. emailVerificationToken x = Some ''t1'' \<longrightarrow> id' x = id' jane"
    by (simp add: janeStore_eval)
  from verifyEmail_precedence [of janeStore "''no-such-token''" mailOk 1] f1
  have c1: "verifyEmail mailOk 1 janeStore ''no-such-token''
       = (Inl MerchantVerificationTokenInvalid, janeStore)"
    by blast
  from verifyEmail_precedence [of verifiedWithTokenStore "''t1''" mailOk 1] f2
  have c2: "verifyEmail mailOk 1 verifiedWithTokenStore ''t1''
       = (Inl MerchantEmailAlreadyVerified, verifiedWithTokenStore)"
    by simp
  from verifyEmail_precedence [of janeStore "''t1''" mailOk 86400001] f3 j
  have c3: "verifyEmail mailOk 90000000 janeStore ''t1''
       = (Inl MerchantVerificationTokenExpired, janeStore)"
    by simp
  from verifyEmail_precedence [of janeStore "''t1''" mailOk 1] f3 j
  have c4: "\<exists>m'. fst (verifyEmail mailOk 1 janeStore ''t1'') = Inr (Some m')
          \<and> emailVerified m' \<and> emailVerifiedAt m' = Some 1
          \<and> emailVerificationToken m' = None \<and> emailVerificationExpiresAt m' = None"
    by auto
  from verifyEmail_precedence [of janeStore "''t1''" mailOk 1] f3 j u
  have c5: "verifyEmail mailOk 2 (snd (verifyEmail mailOk 1 janeStore ''t1'')) ''t1''
       = (Inl MerchantVerificationTokenInvalid, snd (verifyEmail mailOk 1 janeStore ''t1''))"
    by simp
  from f1 f2 f3 c1 c2 c3 c4 c5 show ?thesis by blast
qed

section \<open>Registration\<close>

lemma registerMerchant_exists:
  assumes "findByEmail rt s (RegisterMerchantDto.email dto) = Some x"
  shows "registerMerchant rt es h t u n s dto =
           (Inl (MerchantAlreadyExists (RegisterMerchantDto.email dto)), s)"
  using assms by (simp add: registerMerchant_def)

lemma registerMerchant_fresh:
  assumes "findByEmail rt s (RegisterMerchantDto.email dto) = None"
  shows "\<exists>m. registerMerchant rt es h t u n s dto = (Inr m, s @ [m])
           \<and> email m = toLowerCase rt (RegisterMerchantDto.email dto)
           \<and> id' m = u \<and> status m = PENDING \<and> kycStatus m = KYC_NOT_STARTED
           \<and> \<not> emailVerified m \<and> emailVerificationToken m = Some t
           \<and> apiQuotaUsed m = 0 \<and> apiQuotaLimit m = 1000"
  using assms by (simp add: registerMerchant_def create_def Let_def)

lemma findByEmail_append:
  "findByEmail rt (s @ [m]) e =
     (case findByEmail rt s e of
        Some x \<Rightarrow> Some x
      | None \<Rightarrow> if toLowerCase rt (email m) = toLowerCase rt e then Some m else None)"
  by (induction s) (simp_all add: findByEmail_def)

lemma findByEmail_cong:
  "toLowerCase rt e = toLowerCase rt e' \<Longrightarrow> findByEmail rt s e = findByEmail rt s e'"
  by (simp add: findByEmail_def)

lemma findByEmail_None:
  "findByEmail rt s e = None \<Longrightarrow>
     filter (\<lambda>x. toLowerCase rt (email x) = toLowerCase rt e) s = []"
  by (simp add: findByEmail_def find_None_iff filter_empty_conv)

lemma findByEmail_after_register:
  assumes idem: "\<And>a. toLowerCase rt (toLowerCase rt a) = toLowerCase rt a"
    and same: "toLowerCase rt e = toLowerCase rt (RegisterMerchantDto.email dto)"
  shows "\<exists>x. findByEmail rt (snd (registerMerchant rt es h t u n s dto)) e = Some x"
proof (cases "findByEmail rt s (RegisterMerchantDto.email dto)")
  case None
  from registerMerchant_fresh [OF None, of es h t u n]
  obtain m where m: "registerMerchant rt es h t u n s dto = (Inr m, s @ [m])"
    "email m = toLowerCase rt (RegisterMerchantDto.email dto)"
    by blast
  with same idem show ?thesis
    by (simp add: findByEmail_append split: option.splits)
next
  case (Some x)
  then show ?thesis
    by (simp add: registerMerchant_exists findByEmail_cong [OF same])
qed

lemma asciiToLowerChar_idem: "asciiToLowerChar (asciiToLowerChar c) = asciiToLowerChar c"
  by (simp add: asciiToLowerChar_def)

lemma asciiRuntime_idem:
  "toLowerCase asciiRuntime (toLowerCase asciiRuntime a) = toLowerCase asciiRuntime a"
  by (simp add: asciiRuntime_def asciiToLowerChar_idem)

text \<open>
  C4. Two emails are the same up to letter case when \<^verbatim>\<open>toLowerCase\<close> gives the same
  string for both; lowercasing a lowercased string changes nothing. For two registration
  requests with such emails, made one after the other on any store and with any
  collaborators, the second \<open>registerMerchant\<close> fails with the already-exists error for
  its email and leaves the store as the first call left it, so that at most one record
  was added; and when the first call succeeds, it stores the email lowercased and the
  record it creates is, after both calls, the only one with that email up to letter
  case.
\<close>

theorem registerMerchant_email_once:
  assumes idem: "\<And>a. toLowerCase rt (toLowerCase rt a) = toLowerCase rt a"
    and same: "toLowerCase rt (RegisterMerchantDto.email dto1)
                 = toLowerCase rt (RegisterMerchantDto.email dto2)"
  shows "registerMerchant rt es2 h2 t2 u2 n2
             (snd (registerMerchant rt es1 h1 t1 u1 n1 s dto1)) dto2
           = (Inl (MerchantAlreadyExists (RegisterMerchantDto.email dto2)),
              snd (registerMerchant rt es1 h1 t1 u1 n1 s dto1))
       \<and> (\<forall>m. fst (registerMerchant rt es1 h1 t1 u1 n1 s dto1) = Inr m
              \<longrightarrow> email m = toLowerCase rt (RegisterMerchantDto.email dto1)
                \<and> snd (registerMerchant rt es1 h1 t1 u1 n1 s dto1) = s @ [m]
                \<and> filter (\<lambda>x. toLowerCase rt (email x)
                                 = toLowerCase rt (RegisterMerchantDto.email dto2))
                     (snd (registerMerchant rt es2 h2 t2 u2 n2
                             (snd (registerMerchant rt es1 h1 t1 u1 n1 s dto1)) dto2))
                   = [m])
       \<and> length (snd (registerMerchant rt es2 h2 t2 u2 n2
                        (snd (registerMerchant rt es1 h1 t1 u1 n1 s dto1)) dto2))
           \<le> length s + 1"
proof -
  let ?s1 = "snd (registerMerchant rt es1 h1 t1 u1 n1 s dto1)"
  from findByEmail_after_register [OF idem same [symmetric], of es1 h1 t1 u1 n1 s]
  obtain x where "findByEmail rt ?s1 (RegisterMerchantDto.email dto2) = Some x"
    by blast
  then have second: "registerMerchant rt es2 h2 t2 u2 n2 ?s1 dto2
           = (Inl (MerchantAlreadyExists (RegisterMerchantDto.email dto2)), ?s1)"
    by (rule registerMerchant_exists)
  have first: "email m = toLowerCase rt (RegisterMerchantDto.email dto1) \<and> ?s1 = s @ [m]
      \<and> filter (\<lambda>x. toLowerCase rt (email x) = toLowerCase rt (RegisterMerchantDto.email dto2))
           ?s1 = [m]"
    if ok: "fst (registerMerchant rt es1 h1 t1 u1 n1 s dto1) = Inr m" for m
  proof (cases "findByEmail rt s (RegisterMerchantDto.email dto1)")
    case None
    from registerMerchant_fresh [OF None, of es1 h1 t1 u1 n1] ok
    have m: "email m = toLowerCase rt (RegisterMerchantDto.email dto1)" "?s1 = s @ [m]"
      by auto
    from findByEmail_None [OF None] same
    have "filter (\<lambda>x. toLowerCase rt (email x) = toLowerCase rt (RegisterMerchantDto.email dto2)) s
            = []"
      by simp
    with m idem same show ?thesis
      by simp
  next
    case (Some y)
    with ok show ?thesis
      by (simp add: registerMerchant_exists)
  qed
  have len: "length ?s1 \<le> length s + 1"
  proof (cases "findByEmail rt s (RegisterMerchantDto.email dto1)")
    case None
    from registerMerchant_fresh [OF None, of es1 h1 t1 u1 n1] show ?thesis
      by auto
  next
    case (Some y)
    then show ?thesis
      by (simp add: registerMerchant_exists)
  qed
  from first len show ?thesis
    unfolding second snd_conv by blast
qed

theorem registerMerchant_email_once_witness:
  "(\<forall>a. toLowerCase asciiRuntime (toLowerCase asciiRuntime a) = toLowerCase asciiRuntime a)
   \<and> RegisterMerchantDto.email janeDto = ''jane@x.com''
   \<and> RegisterMerchantDto.email janeUpperDto = ''Jane@X.COM''
   \<and> toLowerCase asciiRuntime (RegisterMerchantDto.email janeDto)
       = toLowerCase asciiRuntime (RegisterMerchantDto.email janeUpperDto)
   \<and> fst (registerMerchant asciiRuntime mailOk (\<lambda>p r. ''$2b$10$hash'') ''t1'' ''m1'' 0 []
            janeDto) = Inr jane
   \<and> registerMerchant asciiRuntime mailOk (\<lambda>p r. ''$2b$10$other'') ''t9'' ''m2'' 7 janeStore
        janeUpperDto
       = (Inl (MerchantAlreadyExists (RegisterMerchantDto.email janeUpperDto)), janeStore)
   \<and> filter (\<lambda>x. toLowerCase asciiRuntime (email x)
                    = toLowerCase asciiRuntime (RegisterMerchantDto.email janeUpperDto))
        (snd (registerMerchant asciiRuntime mailOk (\<lambda>p r. ''$2b$10$other'') ''t9'' ''m2'' 7
                janeStore janeUpperDto))
       = [jane]"
proof -
  have d: "RegisterMerchantDto.email janeDto = ''jane@x.com''"
    "RegisterMerchantDto.email janeUpperDto = ''Jane@X.COM''"
    by (simp_all add: janeDto_def janeUpperDto_def)
  have e: "toLowerCase asciiRuntime (RegisterMerchantDto.email janeDto)
             = toLowerCase asciiRuntime (RegisterMerchantDto.email janeUpperDto)"
    by (simp add: d asciiRuntime_def asciiToLowerChar_def)
  have r: "fst (registerMerchant asciiRuntime mailOk (\<lambda>p r. ''$2b$10$hash'') ''t1'' ''m1'' 0 []
            janeDto) = Inr jane"
    by (simp add: registerMerchant_def findByEmail_def create_def mailOk_def
        janeDto_def jane_def Let_def VERIFICATION_TOKEN_EXPIRY_HOURS_def asciiRuntime_def
        asciiToLowerChar_def)
  note once = registerMerchant_email_once [OF asciiRuntime_idem e,
      of mailOk "\<lambda>p r. ''$2b$10$other''" "''t9''" "''m2''" 7
         mailOk "\<lambda>p r. ''$2b$10$hash''" "''t1''" "''m1''" 0 "[]", folded janeStore_def]
  from once
  have w1: "registerMerchant asciiRuntime mailOk (\<lambda>p r. ''$2b$10$other'') ''t9'' ''m2'' 7 janeStore
        janeUpperDto
       = (Inl (MerchantAlreadyExists (RegisterMerchantDto.email janeUpperDto)), janeStore)"
    by blast
  from once r
  have w2: "filter (\<lambda>x. toLowerCase asciiRuntime (email x)
                    = toLowerCase asciiRuntime (RegisterMerchantDto.email janeUpperDto))
        (snd (registerMerchant asciiRuntime mailOk (\<lambda>p r. ''$2b$10$other'') ''t9'' ''m2'' 7
                janeStore janeUpperDto))
       = [jane]"
    by blast
  from asciiRuntime_idem d e r w1 w2 show ?thesis by blast
qed

section \<open>Failures of the email sender\<close>

text \<open>
  Where the send is inside a \<^verbatim>\<open>try\<close> block the result of the operation is the same for
  every email service.
\<close>

lemma registerMerchant_any_sender:
  "registerMerchant rt es h t u n s dto = registerMerchant rt es' h t u n s dto"
  by (simp add: registerMerchant_def Let_def split: option.splits prod.splits)

lemma verifyEmail_any_sender: "verifyEmail es now s t = verifyEmail es' now s t"
  by (simp add: verifyEmail_def Let_def split: option.splits prod.splits)

lemma verifyKyc_any_sender: "verifyKyc es now s i dto = verifyKyc es' now s i dto"
  by (simp add: verifyKyc_def Let_def split: sum.splits prod.splits)

lemma changeMerchantStatus_any_sender:
  "changeMerchantStatus es now s i dto = changeMerchantStatus es' now s i dto"
  by (simp add: changeMerchantStatus_def Let_def split: sum.splits prod.splits)

text \<open>
  C8. \<open>resendVerificationEmail\<close> for Jane's address: with the service that delivers, it
  returns normally; with the service that rejects every send, it stores the same new
  token and expiry and then fails with the sender's error.
\<close>

theorem resendVerificationEmail_send_failure:
  "resendVerificationEmail asciiRuntime mailOk ''t2'' 5 janeStore ''jane@x.com''
     = (Inr (),
        [jane\<lparr>emailVerificationToken := Some ''t2'',
              emailVerificationExpiresAt := Some 86400005\<rparr>])
   \<and> resendVerificationEmail asciiRuntime mailDown ''t2'' 5 janeStore ''jane@x.com''
     = (Inl (OtherError ''SMTP connection refused''),
        [jane\<lparr>emailVerificationToken := Some ''t2'',
              emailVerificationExpiresAt := Some 86400005\<rparr>])"
  by (simp add: resendVerificationEmail_def janeStore_eval findByEmail_def update_def patch_def
        findById_def mailOk_def mailDown_def VERIFICATION_TOKEN_EXPIRY_HOURS_def jane_def
        asciiRuntime_def asciiToLowerChar_def)

section \<open>Bank account details\<close>

text \<open>The patterns, characterised by length and character classes.\<close>

lemma rep_whole:
  "[] \<in> set (rep p lo hi s) \<longleftrightarrow> lo \<le> length s \<and> length s \<le> hi \<and> list_all p s"
proof (induction hi arbitrary: lo s)
  case 0
  show ?case by auto
next
  case (Suc hi)
  show ?case
  proof (cases s)
    case Nil
    then show ?thesis by simp
  next
    case (Cons c cs)
    with Suc.IH [of "lo - 1" cs] show ?thesis by auto
  qed
qed

lemma rep_exact:
  "set (rep p n n s) = (if n \<le> length s \<and> list_all p (take n s) then {drop n s} else {})"
proof (induction n arbitrary: s)
  case 0
  show ?case by simp
next
  case (Suc n)
  show ?case
  proof (cases s)
    case Nil
    then show ?thesis by simp
  next
    case (Cons c cs)
    with Suc.IH [of cs] show ?thesis by simp
  qed
qed

lemma test_Rep:
  "test (Rep c lo hi) s \<longleftrightarrow> lo \<le> length s \<and> length s \<le> hi \<and> list_all (inClass c) s"
  by (simp add: test_def rep_whole)

lemma test_Seq_Rep:
  "test (Seq (Rep c n n) r) s \<longleftrightarrow>
     n \<le> length s \<and> list_all (inClass c) (take n s) \<and> test r (drop n s)"
  by (auto simp add: test_def rep_exact)

lemma test_Opt: "test (Opt r) s \<longleftrightarrow> test r s \<or> s = []"
  by (auto simp: test_def)

lemma list_all_split: "list_all p xs \<longleftrightarrow> list_all p (take n xs) \<and> list_all p (drop n xs)"
  by (metis append_take_drop_id list_all_append)

lemma test_accountNumber: "test (Rep Digit 4 17) a = isAccountNumber a"
  by (simp add: test_Rep isAccountNumber_def)

lemma test_routingNumber: "test (Rep Digit 9 9) r = isRoutingNumber r"
  by (auto simp add: test_Rep isRoutingNumber_def)

lemma test_swiftCode:
  "test (Seq (Rep Upper 6 6) (Seq (Rep UpperOrDigit 2 2) (Opt (Rep UpperOrDigit 3 3)))) c
     = isSwiftCode c"
proof -
  have "list_all (inClass UpperOrDigit) (drop 6 c) \<longleftrightarrow>
          list_all (inClass UpperOrDigit) (take 2 (drop 6 c))
          \<and> list_all (inClass UpperOrDigit) (drop 8 c)"
    using list_all_split [of "inClass UpperOrDigit" "drop 6 c" 2] by simp
  then show ?thesis
    by (auto simp add: test_Seq_Rep test_Opt test_Rep isSwiftCode_def)
qed

lemma test_iban:
  "test (Seq (Rep Upper 2 2) (Seq (Rep Digit 2 2) (Rep UpperOrDigit 4 30))) b = isIban b"
  by (auto simp add: test_Seq_Rep test_Rep isIban_def)

lemma validateBankAccountDetails_ok_iff:
  "validateBankAccountDetails dto = Inr () \<longleftrightarrow>
     isAccountNumber (accountNumber dto)
     \<and> (\<forall>r. routingNumber dto = Some r \<and> r \<noteq> [] \<longrightarrow> isRoutingNumber r)
     \<and> (\<forall>c. swiftCode dto = Some c \<and> c \<noteq> [] \<longrightarrow> isSwiftCode c)
     \<and> (\<forall>b. iban dto = Some b \<and> b \<noteq> [] \<longrightarrow> isIban b)"
  unfolding validateBankAccountDetails_def test_accountNumber test_routingNumber
    test_swiftCode test_iban
  by (auto split: option.splits)

lemma validateBankAccountDetails_error:
  "validateBankAccountDetails dto \<noteq> Inr () \<Longrightarrow>
     \<exists>msg. validateBankAccountDetails dto = Inl (BankAccountInvalid msg)"
  by (auto simp: validateBankAccountDetails_def split: if_splits)

lemma updateBankAccount_rejected:
  assumes "findById s i = Some m" and "status m \<noteq> SUSPENDED" and "status m \<noteq> CLOSED"
    and "validateBankAccountDetails dto \<noteq> Inr ()"
  shows "\<exists>msg. updateBankAccount s i dto = (Inl (BankAccountInvalid msg), s)"
proof -
  from validateBankAccountDetails_error [OF assms(4)]
  obtain msg where "validateBankAccountDetails dto = Inl (BankAccountInvalid msg)" by blast
  with assms(1-3) have "updateBankAccount s i dto = (Inl (BankAccountInvalid msg), s)"
    by (simp add: updateBankAccount_def getMerchantById_def validateMerchantActive_ok)
  then show ?thesis by blast
qed

lemma updateBankAccount_stored:
  assumes "findById s i = Some m" and "status m \<noteq> SUSPENDED" and "status m \<noteq> CLOSED"
    and "validateBankAccountDetails dto = Inr ()"
  shows "\<exists>m'. fst (updateBankAccount s i dto) = Inr (Some m')
            \<and> findById (snd (updateBankAccount s i dto)) i = Some m'
            \<and> bankAccountNumber m' = Some (accountNumber dto)
            \<and> bankRoutingNumber m' = routingNumber dto
            \<and> bankAccountHolderName m' = Some (accountHolderName dto)
            \<and> bankName m' = Some (BankAccountDto.bankName dto)
            \<and> bankSwiftCode m' = swiftCode dto
            \<and> bankIban m' = iban dto
            \<and> bankAccountStatus m' = BANK_PENDING"
  using assms
  by (simp add: updateBankAccount_def getMerchantById_def validateMerchantActive_ok update_def
        findById_patch)

text \<open>
  C7, as stated, at a request whose routing number is the empty string: the routing
  number is there and is not nine digits, and \<open>updateBankAccount\<close> succeeds, storing it
  with status PENDING.
\<close>

theorem updateBankAccount_empty_routing_counterexample:
  "routingNumber emptyRoutingDto = Some ''''
   \<and> \<not> isRoutingNumber ''''
   \<and> updateBankAccount janeStore ''m1'' emptyRoutingDto
       = (Inr (Some (jane\<lparr>bankAccountNumber := Some ''1234567890'',
                          bankRoutingNumber := Some '''',
                          bankAccountHolderName := Some ''Jane'',
                          bankName := Some ''Chase Bank'',
                          bankSwiftCode := None,
                          bankIban := None,
                          bankAccountStatus := BANK_PENDING\<rparr>)),
          [jane\<lparr>bankAccountNumber := Some ''1234567890'',
                bankRoutingNumber := Some '''',
                bankAccountHolderName := Some ''Jane'',
                bankName := Some ''Chase Bank'',
                bankSwiftCode := None,
                bankIban := None,
                bankAccountStatus := BANK_PENDING\<rparr>])"
proof -
  have v: "validateBankAccountDetails emptyRoutingDto = Inr ()"
    by (simp add: validateBankAccountDetails_ok_iff emptyRoutingDto_def isAccountNumber_def)
  have act: "validateMerchantActive jane = Inr ()"
    by (simp add: validateMerchantActive_def jane_def)
  have r: "routingNumber emptyRoutingDto = Some ''''" "\<not> isRoutingNumber ''''"
    by (simp_all add: emptyRoutingDto_def isRoutingNumber_def)
  have d: "accountNumber emptyRoutingDto = ''1234567890''"
    "accountHolderName emptyRoutingDto = ''Jane''"
    "BankAccountDto.bankName emptyRoutingDto = ''Chase Bank''"
    "swiftCode emptyRoutingDto = None" "iban emptyRoutingDto = None"
    by (simp_all add: emptyRoutingDto_def)
  have u: "updateBankAccount janeStore ''m1'' emptyRoutingDto
       = (Inr (Some (jane\<lparr>bankAccountNumber := Some ''1234567890'',
                          bankRoutingNumber := Some '''',
                          bankAccountHolderName := Some ''Jane'',
                          bankName := Some ''Chase Bank'',
                          bankSwiftCode := None,
                          bankIban := None,
                          bankAccountStatus := BANK_PENDING\<rparr>)),
          [jane\<lparr>bankAccountNumber := Some ''1234567890'',
                bankRoutingNumber := Some '''',
                bankAccountHolderName := Some ''Jane'',
                bankName := Some ''Chase Bank'',
                bankSwiftCode := None,
                bankIban := None,
                bankAccountStatus := BANK_PENDING\<rparr>])"
    by (simp add: updateBankAccount_def getMerchantById_def jane_findById v act update_def
          findById_patch r d)
       (simp add: janeStore_eval patch_jane keep_id)
  from r u show ?thesis by blast
qed

text \<open>
  C7, amended. For a stored merchant that is neither SUSPENDED nor CLOSED,
  \<open>updateBankAccount\<close> fails with the bank-account-invalid error, the store unchanged,
  unless the account number is 4 to 17 digits and the routing number, the SWIFT code and
  the IBAN, each when present and not the empty string, are of their formats (nine
  digits; \<^verbatim>\<open>[A-Z]{6}[A-Z0-9]{2}([A-Z0-9]{3})?\<close>; \<^verbatim>\<open>[A-Z]{2}\d{2}[A-Z0-9]{4,30}\<close>); when
  all checks pass, the fields of the request are stored and the bank-account status is
  PENDING. In particular the account number "12" fails, "1234567890" with routing number
  "123" fails, and "1234567890" with routing number "021000021" succeeds with status
  PENDING.
\<close>

theorem updateBankAccount_validation:
  assumes "findById s i = Some m" and "status m \<noteq> SUSPENDED" and "status m \<noteq> CLOSED"
  shows "(isAccountNumber (accountNumber dto)
          \<and> (\<forall>r. routingNumber dto = Some r \<and> r \<noteq> [] \<longrightarrow> isRoutingNumber r)
          \<and> (\<forall>c. swiftCode dto = Some c \<and> c \<noteq> [] \<longrightarrow> isSwiftCode c)
          \<and> (\<forall>b. iban dto = Some b \<and> b \<noteq> [] \<longrightarrow> isIban b)
          \<longrightarrow> (\<exists>m'. fst (updateBankAccount s i dto) = Inr (Some m')
                 \<and> findById (snd (updateBankAccount s i dto)) i = Some m'
                 \<and> bankAccountNumber m' = Some (accountNumber dto)
                 \<and> bankRoutingNumber m' = routingNumber dto
                 \<and> bankAccountHolderName m' = Some (accountHolderName dto)
                 \<and> bankName m' = Some (BankAccountDto.bankName dto)
                 \<and> bankSwiftCode m' = swiftCode dto
                 \<and> bankIban m' = iban dto
                 \<and> bankAccountStatus m' = BANK_PENDING))
       \<and> (\<not> (isAccountNumber (accountNumber dto)
              \<and> (\<forall>r. routingNumber dto = Some r \<and> r \<noteq> [] \<longrightarrow> isRoutingNumber r)
              \<and> (\<forall>c. swiftCode dto = Some c \<and> c \<noteq> [] \<longrightarrow> isSwiftCode c)
              \<and> (\<forall>b. iban dto = Some b \<and> b \<noteq> [] \<longrightarrow> isIban b))
          \<longrightarrow> (\<exists>msg. updateBankAccount s i dto = (Inl (BankAccountInvalid msg), s)))
       \<and> (accountNumber dto = ''12''
          \<longrightarrow> (\<exists>msg. updateBankAccount s i dto = (Inl (BankAccountInvalid msg), s)))
       \<and> (accountNumber dto = ''1234567890'' \<and> routingNumber dto = Some ''123''
          \<longrightarrow> (\<exists>msg. updateBankAccount s i dto = (Inl (BankAccountInvalid msg), s)))
       \<and> (accountNumber dto = ''1234567890'' \<and> routingNumber dto = Some ''021000021''
            \<and> swiftCode dto = None \<and> iban dto = None
          \<longrightarrow> (\<exists>m'. fst (updateBankAccount s i dto) = Inr (Some m')
                 \<and> bankAccountNumber m' = Some ''1234567890''
                 \<and> bankRoutingNumber m' = Some ''021000021''
                 \<and> bankAccountStatus m' = BANK_PENDING))"
proof (intro conjI impI)
  assume "isAccountNumber (accountNumber dto)
          \<and> (\<forall>r. routingNumber dto = Some r \<and> r \<noteq> [] \<longrightarrow> isRoutingNumber r)
          \<and> (\<forall>c. swiftCode dto = Some c \<and> c \<noteq> [] \<longrightarrow> isSwiftCode c)
          \<and> (\<forall>b. iban dto = Some b \<and> b \<noteq> [] \<longrightarrow> isIban b)"
  then have "validateBankAccountDetails dto = Inr ()"
    by (simp add: validateBankAccountDetails_ok_iff)
  from updateBankAccount_stored [OF assms this]
  show "\<exists>m'. fst (updateBankAccount s i dto) = Inr (Some m')
                 \<and> findById (snd (updateBankAccount s i dto)) i = Some m'
                 \<and> bankAccountNumber m' = Some (accountNumber dto)
                 \<and> bankRoutingNumber m' = routingNumber dto
                 \<and> bankAccountHolderName m' = Some (accountHolderName dto)
                 \<and> bankName m' = Some (BankAccountDto.bankName dto)
                 \<and> bankSwiftCode m' = swiftCode dto
                 \<and> bankIban m' = iban dto
                 \<and> bankAccountStatus m' = BANK_PENDING" .
next
  assume "\<not> (isAccountNumber (accountNumber dto)
              \<and> (\<forall>r. routingNumber dto = Some r \<and> r \<noteq> [] \<longrightarrow> isRoutingNumber r)
              \<and> (\<forall>c. swiftCode dto = Some c \<and> c \<noteq> [] \<longrightarrow> isSwiftCode c)
              \<and> (\<forall>b. iban dto = Some b \<and> b \<noteq> [] \<longrightarrow> isIban b))"
  then have "validateBankAccountDetails dto \<noteq> Inr ()"
    by (simp add: validateBankAccountDetails_ok_iff)
  from updateBankAccount_rejected [OF assms this]
  show "\<exists>msg. updateBankAccount s i dto = (Inl (BankAccountInvalid msg), s)" .
next
  assume "accountNumber dto = ''12''"
  then have "\<not> isAccountNumber (accountNumber dto)"
    by (simp add: isAccountNumber_def)
  then have "validateBankAccountDetails dto \<noteq> Inr ()"
    by (simp add: validateBankAccountDetails_ok_iff)
  from updateBankAccount_rejected [OF assms this]
  show "\<exists>msg. updateBankAccount s i dto = (Inl (BankAccountInvalid msg), s)" .
next
  assume "accountNumber dto = ''1234567890'' \<and> routingNumber dto = Some ''123''"
  then have "routingNumber dto = Some ''123''" "''123'' \<noteq> []" "\<not> isRoutingNumber ''123''"
    by (simp_all add: isRoutingNumber_def)
  then have "validateBankAccountDetails dto \<noteq> Inr ()"
    unfolding validateBankAccountDetails_ok_iff by blast
  from updateBankAccount_rejected [OF assms this]
  show "\<exists>msg. updateBankAccount s i dto = (Inl (BankAccountInvalid msg), s)" .
next
  assume a: "accountNumber dto = ''1234567890'' \<and> routingNumber dto = Some ''021000021''
            \<and> swiftCode dto = None \<and> iban dto = None"
  have "isAccountNumber ''1234567890''" "isRoutingNumber ''021000021''"
    by (simp_all add: isAccountNumber_def isRoutingNumber_def)
  with a have "validateBankAccountDetails dto = Inr ()"
    by (simp add: validateBankAccountDetails_ok_iff)
  from updateBankAccount_stored [OF assms this] a
  show "\<exists>m'. fst (updateBankAccount s i dto) = Inr (Some m')
                 \<and> bankAccountNumber m' = Some ''1234567890''
                 \<and> bankRoutingNumber m' = Some ''021000021''
                 \<and> bankAccountStatus m' = BANK_PENDING"
    by auto
qed

theorem updateBankAccount_validation_witness:
  "findById janeStore ''m1'' = Some jane \<and> status jane \<noteq> SUSPENDED \<and> status jane \<noteq> CLOSED
   \<and> (\<exists>msg. updateBankAccount janeStore ''m1'' shortAccountDto
              = (Inl (BankAccountInvalid msg), janeStore))
   \<and> (\<exists>msg. updateBankAccount janeStore ''m1'' shortRoutingDto
              = (Inl (BankAccountInvalid msg), janeStore))
   \<and> (\<exists>m'. fst (updateBankAccount janeStore ''m1'' goodAccountDto) = Inr (Some m')
          \<and> bankAccountNumber m' = Some ''1234567890''
          \<and> bankRoutingNumber m' = Some ''021000021''
          \<and> bankSwiftCode m' = Some ''CHASUS33''
          \<and> bankIban m' = Some ''GB82WEST12345698765432''
          \<and> bankAccountStatus m' = BANK_PENDING)"
proof -
  have a: "findById janeStore ''m1'' = Some jane"
    by (simp add: janeStore_eval findById_def)
  have a': "status jane \<noteq> SUSPENDED" "status jane \<noteq> CLOSED"
    by (simp_all add: jane_def)
  have g: "isAccountNumber ''1234567890''" "isRoutingNumber ''021000021''"
    "isSwiftCode ''CHASUS33''" "isIban ''GB82WEST12345698765432''"
    by (simp_all add: isAccountNumber_def isRoutingNumber_def isSwiftCode_def isIban_def)
  from updateBankAccount_validation [OF a a', of shortAccountDto]
  have c1: "\<exists>msg. updateBankAccount janeStore ''m1'' shortAccountDto
              = (Inl (BankAccountInvalid msg), janeStore)"
    by (simp add: shortAccountDto_def)
  from updateBankAccount_validation [OF a a', of shortRoutingDto]
  have c2: "\<exists>msg. updateBankAccount janeStore ''m1'' shortRoutingDto
              = (Inl (BankAccountInvalid msg), janeStore)"
    by (simp add: shortRoutingDto_def)
  from updateBankAccount_validation [OF a a', of goodAccountDto] g
  have c3: "\<exists>m'. fst (updateBankAccount janeStore ''m1'' goodAccountDto) = Inr (Some m')
          \<and> bankAccountNumber m' = Some ''1234567890''
          \<and> bankRoutingNumber m' = Some ''021000021''
          \<and> bankSwiftCode m' = Some ''CHASUS33''
          \<and> bankIban m' = Some ''GB82WEST12345698765432''
          \<and> bankAccountStatus m' = BANK_PENDING"
    by (auto simp add: goodAccountDto_def)
  from a a' c1 c2 c3 show ?thesis by blast
qed

section \<open>Admin login\<close>


lemma login_users: "users (snd (login comparePassword sign cfg now st dto agent ip)) = users st"
  by (simp add: login_def recordLoginAttempt_def Let_def split: option.splits)











end
